theory Spec2Isabelle
  imports Main "HOL-Library.AList"
begin

section \<open>JavaScript values\<close>

text \<open>
  The arguments of \<open>scrollTo\<close> and \<open>scrollBy\<close> are numbers, \<open>null\<close>, arrays or objects;
  the code tells them apart with truthiness, \<open>.length\<close> and \<open>typeof\<close>. Numbers are scroll
  offsets in whole pixels and are modelled as \<open>int\<close>. Strings are not modelled.
\<close>

datatype jsval =
    JUndefined
  | JNull
  | JBool bool
  | JNum int
  | JArr "jsval list"
  | JObj "(string \<times> jsval) list"

text \<open>\<open>if (v)\<close>\<close>

fun truthy :: "jsval \<Rightarrow> bool" where
  "truthy JUndefined = False"
| "truthy JNull = False"
| "truthy (JBool b) = b"
| "truthy (JNum n) = (n \<noteq> 0)"
| "truthy (JArr vs) = True"
| "truthy (JObj ps) = True"

text \<open>
  \<open>v.name\<close> for a value that is neither \<open>undefined\<close> nor \<open>null\<close> (the source reads
  properties only under \<open>if (x)\<close>): numbers and booleans have none of the properties
  read here, an array has \<open>length\<close> and its indices.
\<close>

fun js_field :: "jsval \<Rightarrow> string \<Rightarrow> jsval" where
  "js_field (JObj ps) k = (case map_of ps k of Some v \<Rightarrow> v | None \<Rightarrow> JUndefined)"
| "js_field (JArr vs) k =
     (if k = ''length'' then JNum (int (length vs))
      else if k = ''0'' then (case vs of v # _ \<Rightarrow> v | _ \<Rightarrow> JUndefined)
      else if k = ''1'' then (case vs of _ # v # _ \<Rightarrow> v | _ \<Rightarrow> JUndefined)
      else JUndefined)"
| "js_field v k = JUndefined"

text \<open>\<open>typeof v === 'number'\<close>\<close>

fun is_number :: "jsval \<Rightarrow> bool" where
  "is_number (JNum n) = True"
| "is_number v = False"

text \<open>
  \<open>ToNumber\<close>, with \<open>None\<close> for \<open>NaN\<close>. An array is first joined to a string: the empty
  array gives \<open>0\<close>, a one-element array the number its element prints as, a longer one
  \<open>NaN\<close>. A plain object gives \<open>NaN\<close>.
\<close>

fun to_number :: "jsval \<Rightarrow> int option" where
  "to_number JUndefined = None"
| "to_number JNull = Some 0"
| "to_number (JBool b) = Some (if b then 1 else 0)"
| "to_number (JNum n) = Some n"
| "to_number (JObj ps) = None"
| "to_number (JArr []) = Some 0"
| "to_number (JArr [JUndefined]) = Some 0"
| "to_number (JArr [JNull]) = Some 0"
| "to_number (JArr [JBool b]) = None"
| "to_number (JArr [JNum n]) = Some n"
| "to_number (JArr [JObj ps]) = None"
| "to_number (JArr [JArr vs]) = to_number (JArr vs)"
| "to_number (JArr (v # v' # vs)) = None"

text \<open>\<open>v < 0\<close>: false when \<open>v\<close> converts to \<open>NaN\<close>.\<close>

definition js_lt0 :: "jsval \<Rightarrow> bool" where
  "js_lt0 v = (case to_number v of Some n \<Rightarrow> n < 0 | None \<Rightarrow> False)"

text \<open>
  \<open>v += m\<close> for a number \<open>m\<close>. The source adds only under \<open>v < 0\<close>, which holds for a
  negative number and for an array that prints as one; for the array JavaScript
  concatenates strings, which this model does not have: \<open>None\<close>.
\<close>

fun js_plus :: "jsval \<Rightarrow> int \<Rightarrow> jsval option" where
  "js_plus (JNum n) m = Some (JNum (n + m))"
| "js_plus v m = None"

section \<open>Scrollers and the world they live in\<close>

type_synonym sid = nat

record pos =
  coord_x :: int
  coord_y :: int

datatype kind = ScrollStart | Scroll | ScrollEnd

datatype meth = OnPartnerScrollStart | OnPartnerScroll | OnPartnerScrollEnd

text \<open>
  One instance of \<open>Ext.scroll.Scroller\<close>. \<open>partners\<close> is \<open>_partners\<close>: \<open>None\<close> while it is
  \<open>undefined\<close> or \<open>null\<close>, otherwise the object as the list of its keys in insertion order
  (the order of \<open>for (id in partners)\<close>); the key is the partner's id and the entry's
  \<open>scroller\<close> is the instance with that id, so an entry keeps only its \<open>axis\<close> (\<open>None\<close> when
  \<open>addPartner\<close> was called without one). \<open>suspendSync\<close> is \<open>None\<close> while \<open>undefined\<close>.
  \<open>surface\<close> is the \<open>scrollLeft\<close>/\<open>scrollTop\<close> of the scroll element, which the host owns.
  \<open>hasListeners\<close> lists the events with a listener, \<open>component\<close> the hooks
  (\<open>onScrollStart\<close>, \<open>onScrollMove\<close>, \<open>onScrollEnd\<close>) the owning component defines.
  \<open>bufferedEnd\<close> tells whether the property \<open>onDomScrollEnd\<close> holds the buffered
  function the constructor stored (it is \<open>null\<close> after \<open>destroy\<close>).
\<close>

record scroller =
  position :: pos
  surface :: pos
  maxPosition :: pos
  element :: bool
  scrollElement :: bool
  scrollListener :: bool
  partners :: "(sid \<times> string option) list option"
  component :: "kind list option"
  hasListeners :: "kind list"
  isReflecting :: bool
  suspendSync :: "int option"
  isScrolling :: bool
  restoring :: bool
  positionDirty :: bool
  trackingScrollLeft :: "int option"
  trackingScrollTop :: "int option"
  bufferedEnd :: bool

text \<open>What the program does that an observer can see, in the order it happens.\<close>

datatype notice =
    PartnerCall meth sid sid int int
  | DoScrollTo sid jsval jsval jsval jsval
  | Listener kind sid int int
  | Hook kind sid int int
  | Fired kind sid int int

text \<open>
  \<open>PartnerCall m p a x y\<close> is the call \<open>p[m](a, x, y)\<close>; \<open>DoScrollTo a x y animate reflect\<close>
  the call \<open>a.doScrollTo(x, y, animate, reflect)\<close>; \<open>Listener\<close> is \<open>me.fireEvent\<close>,
  \<open>Hook\<close> the component's hook and \<open>Fired\<close> is \<open>Ext.GlobalEvents.fireEvent\<close>.

  The world: the instances by id, the notices so far, the pending timeouts (due time and
  instance, in the order they were set), the clock in milliseconds, and \<open>Ext.isScrolling\<close>.
\<close>

record world =
  heap :: "sid \<Rightarrow> scroller"
  trace :: "notice list"
  timers :: "(nat \<times> sid) list"
  now :: nat
  ext_isScrolling :: bool

definition upd :: "sid \<Rightarrow> (scroller \<Rightarrow> scroller) \<Rightarrow> world \<Rightarrow> world" where
  "upd a f w = w\<lparr>heap := (heap w)(a := f (heap w a))\<rparr>"

definition log :: "notice \<Rightarrow> world \<Rightarrow> world" where
  "log n w = w\<lparr>trace := trace w @ [n]\<rparr>"

text \<open>\<open>suspendSync\<close> read as a number: \<open>undefined || 0\<close>.\<close>

definition suspend_count :: "scroller \<Rightarrow> int" where
  "suspend_count s = (case suspendSync s of None \<Rightarrow> 0 | Some n \<Rightarrow> n)"

section \<open>Partners\<close>

definition addPartner :: "sid \<Rightarrow> sid \<Rightarrow> string option \<Rightarrow> world \<Rightarrow> world" where
  "addPartner me partner axis w =
     (let w1 = upd me (\<lambda>s. s\<lparr>partners := Some (case partners s of None \<Rightarrow> [] | Some al \<Rightarrow> al)\<rparr>) w;
          w2 = upd partner (\<lambda>s. s\<lparr>partners := Some (case partners s of None \<Rightarrow> [] | Some al \<Rightarrow> al)\<rparr>) w1;
          w3 = upd me (\<lambda>s. s\<lparr>partners := map_option (AList.update partner axis) (partners s)\<rparr>) w2
      in upd partner (\<lambda>s. s\<lparr>partners := map_option (AList.update me axis) (partners s)\<rparr>) w3)"

definition removePartner :: "sid \<Rightarrow> sid \<Rightarrow> world \<Rightarrow> world" where
  "removePartner me partner w =
     (let w1 = upd me (\<lambda>s. s\<lparr>partners := map_option (AList.delete partner) (partners s)\<rparr>) w
      in upd partner (\<lambda>s. s\<lparr>partners := map_option (AList.delete me) (partners s)\<rparr>) w1)"

text \<open>\<open>b\<close> is listed in \<open>a\<close>'s partner map, with this axis.\<close>

definition partner_axis :: "world \<Rightarrow> sid \<Rightarrow> sid \<Rightarrow> string option option" where
  "partner_axis w a b = (case partners (heap w a) of None \<Rightarrow> None | Some al \<Rightarrow> map_of al b)"

subsection \<open>Propagation\<close>

text \<open>
  Modelled from the spec: \<open>doScrollTo\<close> is defined by the platform subclasses
  (\<open>Ext.scroll.DomScroller\<close>, \<open>Ext.scroll.TouchScroller\<close>), which are not among the
  sources. The spec: ``\<open>null\<close> on an axis means leave that axis unchanged'', and the call
  ``mutates Position, triggers underlying surface write''. A number is written to the
  position and to the surface; any other value leaves the axis as it is. The native
  scroll notification with which the host answers the write reaches the scroller like
  every other one, through \<open>onDomScroll\<close>.
\<close>

definition target :: "jsval \<Rightarrow> int \<Rightarrow> int" where
  "target v current = (case v of JNum n \<Rightarrow> n | _ \<Rightarrow> current)"

definition move :: "jsval \<Rightarrow> jsval \<Rightarrow> pos \<Rightarrow> pos" where
  "move x y p = \<lparr>coord_x = target x (coord_x p), coord_y = target y (coord_y p)\<rparr>"

definition doScrollTo :: "sid \<Rightarrow> jsval \<Rightarrow> jsval \<Rightarrow> jsval \<Rightarrow> jsval \<Rightarrow> world \<Rightarrow> world" where
  "doScrollTo me x y animate reflect w =
     upd me (\<lambda>s. s\<lparr>position := move x y (position s), surface := move x y (surface s)\<rparr>)
       (log (DoScrollTo me x y animate reflect) w)"

text \<open>
  \<open>None\<close> is the \<open>TypeError\<close> of reading \<open>axis\<close> when \<open>partner._partners\<close> is \<open>null\<close> or
  has no entry for this scroller.
\<close>

definition onPartnerScroll :: "sid \<Rightarrow> sid \<Rightarrow> int \<Rightarrow> int \<Rightarrow> world \<Rightarrow> world option" where
  "onPartnerScroll this partner x y w =
     (case partner_axis w partner this of
        None \<Rightarrow> None
      | Some axis \<Rightarrow>
          (let (x', y') =
                 (if axis \<noteq> None \<and> axis \<noteq> Some []
                  then (if axis = Some ''x'' then (JNum x, JNull)
                        else if axis = Some ''y'' then (JNull, JNum y)
                        else (JNum x, JNum y))
                  else (JNum x, JNum y))
           in Some (doScrollTo this x' y' (JBool False) (JBool True) w)))"

text \<open>
  \<open>partner[method](me, x, y)\<close>: \<open>onPartnerScrollStart\<close> and \<open>onPartnerScrollEnd\<close> are
  \<open>Ext.emptyFn\<close> in this class.
\<close>

definition call_partner :: "meth \<Rightarrow> sid \<Rightarrow> sid \<Rightarrow> int \<Rightarrow> int \<Rightarrow> world \<Rightarrow> world option" where
  "call_partner m partner me x y w =
     (let w' = log (PartnerCall m partner me x y) w
      in case m of
           OnPartnerScrollStart \<Rightarrow> Some w'
         | OnPartnerScroll \<Rightarrow> onPartnerScroll partner me x y w'
         | OnPartnerScrollEnd \<Rightarrow> Some w')"

text \<open>The body of \<open>for (id in partners)\<close>, over the keys in order.\<close>

fun invoke_each :: "meth \<Rightarrow> sid \<Rightarrow> int \<Rightarrow> int \<Rightarrow> sid list \<Rightarrow> world \<Rightarrow> world option" where
  "invoke_each m me x y [] w = Some w"
| "invoke_each m me x y (partner # ids) w =
     (case call_partner m partner me x y (upd partner (\<lambda>s. s\<lparr>isReflecting := True\<rparr>) w) of
        None \<Rightarrow> None
      | Some w' \<Rightarrow>
          invoke_each m me x y ids
            (if m = OnPartnerScrollEnd then upd partner (\<lambda>s. s\<lparr>isReflecting := False\<rparr>) w'
             else w'))"

definition invokePartners :: "meth \<Rightarrow> sid \<Rightarrow> int \<Rightarrow> int \<Rightarrow> world \<Rightarrow> world option" where
  "invokePartners m me x y w =
     (if suspend_count (heap w me) = 0 \<and> \<not> isReflecting (heap w me)
      then invoke_each m me x y
             (case partners (heap w me) of None \<Rightarrow> [] | Some al \<Rightarrow> map fst al) w
      else Some w)"

definition clearReflecting :: "sid \<Rightarrow> world \<Rightarrow> world" where
  "clearReflecting me w = upd me (\<lambda>s. s\<lparr>isReflecting := False\<rparr>) w"

definition suspendPartnerSync :: "sid \<Rightarrow> world \<Rightarrow> world" where
  "suspendPartnerSync me w = upd me (\<lambda>s. s\<lparr>suspendSync := Some (suspend_count s + 1)\<rparr>) w"

definition getPosition :: "sid \<Rightarrow> world \<Rightarrow> pos" where
  "getPosition me w = position (heap w me)"

definition resumePartnerSync :: "sid \<Rightarrow> bool \<Rightarrow> world \<Rightarrow> world option" where
  "resumePartnerSync me syncNow w =
     (let w1 = (if suspend_count (heap w me) \<noteq> 0
                then upd me (\<lambda>s. s\<lparr>suspendSync := Some (suspend_count s - 1)\<rparr>) w
                else w)
      in if suspend_count (heap w1 me) = 0 \<and> syncNow
         then (case invokePartners OnPartnerScroll me
                      (coord_x (getPosition me w1)) (coord_y (getPosition me w1)) w1 of
                 None \<Rightarrow> None
               | Some w2 \<Rightarrow>
                   invokePartners OnPartnerScrollEnd me
                     (coord_x (getPosition me w2)) (coord_y (getPosition me w2)) w2)
         else Some w1)"

section \<open>Scroll events\<close>

text \<open>
  \<open>fireScrollStart\<close>, \<open>fireScroll\<close> and \<open>fireScrollEnd\<close> differ in the names only: the
  partners first, then the instance's listeners if there are any, the component's hook if
  there is one, and the global event always. \<open>component\<close> is read before the partners
  are invoked, as the source does.
\<close>

definition fire :: "kind \<Rightarrow> meth \<Rightarrow> sid \<Rightarrow> int \<Rightarrow> int \<Rightarrow> world \<Rightarrow> world option" where
  "fire k m me x y w =
     (let c = component (heap w me)
      in case invokePartners m me x y w of
           None \<Rightarrow> None
         | Some w1 \<Rightarrow>
             (let w2 = (if k \<in> set (hasListeners (heap w1 me))
                        then log (Listener k me x y) w1 else w1);
                  w3 = (case c of
                          None \<Rightarrow> w2
                        | Some hooks \<Rightarrow> if k \<in> set hooks then log (Hook k me x y) w2 else w2)
              in Some (log (Fired k me x y) w3)))"

definition fireScrollStart :: "sid \<Rightarrow> int \<Rightarrow> int \<Rightarrow> world \<Rightarrow> world option" where
  "fireScrollStart me x y w = fire ScrollStart OnPartnerScrollStart me x y w"

definition fireScroll :: "sid \<Rightarrow> int \<Rightarrow> int \<Rightarrow> world \<Rightarrow> world option" where
  "fireScroll me x y w = fire Scroll OnPartnerScroll me x y w"

definition fireScrollEnd :: "sid \<Rightarrow> int \<Rightarrow> int \<Rightarrow> world \<Rightarrow> world option" where
  "fireScrollEnd me x y w = fire ScrollEnd OnPartnerScrollEnd me x y w"

definition updateDomScrollPosition :: "sid \<Rightarrow> world \<Rightarrow> world" where
  "updateDomScrollPosition me w =
     upd me (\<lambda>s. (if scrollElement s then s\<lparr>position := surface s\<rparr> else s)
                   \<lparr>positionDirty := False\<rparr>) w"

text \<open>
  The body of \<open>onDomScrollEnd\<close> as the class defines it, which is what the buffered
  function calls when its timeout fires.
\<close>

definition onDomScrollEnd :: "sid \<Rightarrow> world \<Rightarrow> world option" where
  "onDomScrollEnd me w =
     (let p = getPosition me w;
          x = coord_x p;
          y = coord_y p;
          w1 = (upd me (\<lambda>s. s\<lparr>isScrolling := False\<rparr>) w)\<lparr>ext_isScrolling := False\<rparr>;
          w2 = upd me (\<lambda>s. s\<lparr>trackingScrollLeft := Some x, trackingScrollTop := Some y\<rparr>) w1
      in fireScrollEnd me x y w2)"

text \<open>
  Modelled from the spec: \<open>Ext.Function.createBuffered\<close> is not among the sources. The
  spec: ``a reschedulable delayed callback, canceled and restarted on every new delta'',
  with a quiet period of 100ms. A call of the buffered function clears the timeout it set
  before, if any, and sets one that is due \<open>buffer\<close> milliseconds from now.
\<close>

definition createBuffered :: "nat \<Rightarrow> sid \<Rightarrow> world \<Rightarrow> world" where
  "createBuffered buffer me w =
     w\<lparr>timers := filter (\<lambda>(due, a). a \<noteq> me) (timers w) @ [(now w + buffer, me)]\<rparr>"

text \<open>
  \<open>None\<close> is the \<open>TypeError\<close> of calling \<open>me.onDomScrollEnd()\<close> when the property is
  \<open>null\<close>.
\<close>

definition onDomScroll :: "sid \<Rightarrow> world \<Rightarrow> world option" where
  "onDomScroll me w =
     (let w1 = updateDomScrollPosition me w;
          p = position (heap w1 me)
      in if restoring (heap w1 me) then Some w1
         else
           (let x = coord_x p;
                y = coord_y p
            in case (if \<not> isScrolling (heap w1 me)
                     then fireScrollStart me x y
                            ((upd me (\<lambda>s. s\<lparr>isScrolling := True\<rparr>) w1)\<lparr>ext_isScrolling := True\<rparr>)
                     else Some w1) of
                 None \<Rightarrow> None
               | Some w2 \<Rightarrow>
                   (case fireScroll me x y w2 of
                      None \<Rightarrow> None
                    | Some w3 \<Rightarrow>
                        if bufferedEnd (heap w3 me) then Some (createBuffered 100 me w3)
                        else None)))"

text \<open>
  A timeout set for \<open>due\<close> runs once the clock has reached \<open>due\<close>; the host runs the
  timeouts that are due in the order of their due times, and those due at the same time
  in the order they were set. \<open>advance t\<close> lets the clock reach \<open>t\<close>. No callback of this
  class sets a timeout while it runs as a timeout, so the ones to run are known beforehand.
\<close>

definition due :: "nat \<Rightarrow> (nat \<times> sid) list \<Rightarrow> (nat \<times> sid) list" where
  "due t ts = sort_key fst (filter (\<lambda>(d, a). d \<le> t) ts)"

fun fire_timers :: "(nat \<times> sid) list \<Rightarrow> world \<Rightarrow> world option" where
  "fire_timers [] w = Some w"
| "fire_timers ((d, a) # ts) w =
     (case onDomScrollEnd a (w\<lparr>now := max (now w) d\<rparr>) of
        None \<Rightarrow> None
      | Some w' \<Rightarrow> fire_timers ts w')"

definition advance :: "nat \<Rightarrow> world \<Rightarrow> world option" where
  "advance t w =
     (case fire_timers (due t (timers w))
             (w\<lparr>timers := filter (\<lambda>(d, a). \<not> d \<le> t) (timers w)\<rparr>) of
        None \<Rightarrow> None
      | Some w' \<Rightarrow> Some (w'\<lparr>now := max (now w') t\<rparr>))"

text \<open>
  A scroll of the element by the host at time \<open>t\<close>: the surface shows the new offsets
  and the \<open>scroll\<close> event goes to the listener \<open>applyElement\<close> attached, if it still is.
\<close>

definition dom_scroll :: "nat \<Rightarrow> sid \<Rightarrow> pos \<Rightarrow> world \<Rightarrow> world option" where
  "dom_scroll t me p w =
     (case advance t w of
        None \<Rightarrow> None
      | Some w1 \<Rightarrow>
          (let w2 = upd me (\<lambda>s. s\<lparr>surface := p\<rparr>) w1
           in if scrollListener (heap w2 me) then onDomScroll me w2 else Some w2))"

fun dom_scrolls :: "(nat \<times> pos) list \<Rightarrow> sid \<Rightarrow> world \<Rightarrow> world option" where
  "dom_scrolls [] me w = Some w"
| "dom_scrolls ((t, p) # ds) me w =
     (case dom_scroll t me p w of None \<Rightarrow> None | Some w' \<Rightarrow> dom_scrolls ds me w')"

section \<open>Construction and teardown\<close>

text \<open>
  \<open>applyElement\<close> with the element given or not (\<open>null\<close>): the listener of the old
  element is destroyed, and a new element, which is taken to exist, becomes the scroll
  element and gets the \<open>scroll\<close> listener. \<open>setElement\<close> stands for the setter the class
  system generates, which is not among the sources: it passes the new and the current
  value to \<open>applyElement\<close> (the source: ``When element is set to null in destroy, we must
  remove listeners''), and the element is then the one that was set.
\<close>

definition applyElement :: "sid \<Rightarrow> bool \<Rightarrow> bool \<Rightarrow> world \<Rightarrow> world" where
  "applyElement me el oldElement w =
     (let w1 = (if oldElement then upd me (\<lambda>s. s\<lparr>scrollListener := False\<rparr>) w else w)
      in if el then upd me (\<lambda>s. s\<lparr>scrollElement := True, scrollListener := True\<rparr>) w1
         else w1)"

definition setElement :: "sid \<Rightarrow> bool \<Rightarrow> world \<Rightarrow> world" where
  "setElement me el w =
     upd me (\<lambda>s. s\<lparr>element := el\<rparr>) (applyElement me el (element (heap w me)) w)"

definition zero :: pos where
  "zero = \<lparr>coord_x = 0, coord_y = 0\<rparr>"

text \<open>An instance before its constructor has run.\<close>

definition blank :: scroller where
  "blank = \<lparr>position = zero, surface = zero, maxPosition = zero, element = False,
            scrollElement = False, scrollListener = False, partners = None,
            component = None, hasListeners = [], isReflecting = False, suspendSync = None,
            isScrolling = False, restoring = False, positionDirty = False,
            trackingScrollLeft = None, trackingScrollTop = None, bufferedEnd = False\<rparr>"

definition initial :: world where
  "initial = \<lparr>heap = (\<lambda>a. blank), trace = [], timers = [], now = 0, ext_isScrolling = False\<rparr>"

text \<open>
  The constructor, with the \<open>element\<close> of the config given or not. \<open>callParent([config])\<close>
  sets the configs.
\<close>

definition constructor :: "sid \<Rightarrow> bool \<Rightarrow> world \<Rightarrow> world" where
  "constructor me el w =
     upd me (\<lambda>s. s\<lparr>bufferedEnd := True\<rparr>)
       (setElement me el (upd me (\<lambda>s. s\<lparr>position := zero\<rparr>) w))"

text \<open>
  \<open>destroy\<close>: \<open>setX\<close> and \<open>setY\<close> store an overflow style, which the model does not have;
  then the element and the scroll element are set to \<open>null\<close> and the three properties
  are cleared. \<open>callParent()\<close> is the teardown of the base class, which is not among the
  sources. Nothing in \<open>destroy\<close> names the timeout the buffered function has set.
\<close>

definition destroy :: "sid \<Rightarrow> world \<Rightarrow> world" where
  "destroy me w =
     (let w1 = setElement me False w;
          w2 = upd me (\<lambda>s. s\<lparr>scrollElement := False\<rparr>) w1
      in upd me (\<lambda>s. s\<lparr>bufferedEnd := False, partners := None, component := None\<rparr>) w2)"

section \<open>Scrolling to a position\<close>

text \<open>
  \<open>None\<close>: the call adds the maximum to an array (see \<open>js_plus\<close>).
\<close>

definition scrollTo :: "sid \<Rightarrow> jsval \<Rightarrow> jsval \<Rightarrow> jsval \<Rightarrow> world \<Rightarrow> world option" where
  "scrollTo me x y animate w =
     (let (x, y, animate) =
            (if truthy x
             then (if truthy (js_field x ''length'')
                   then (js_field x ''0'', js_field x ''1'', y)
                   else if \<not> is_number x
                   then (js_field x ''x'', js_field x ''y'', y)
                   else (x, y, animate))
             else (x, y, animate))
      in case (if js_lt0 x \<or> js_lt0 y
               then (let maxPos = maxPosition (heap w me)
                     in case (if js_lt0 x then js_plus x (coord_x maxPos) else Some x) of
                          None \<Rightarrow> None
                        | Some x' \<Rightarrow>
                            (case (if js_lt0 y then js_plus y (coord_y maxPos) else Some y) of
                               None \<Rightarrow> None
                             | Some y' \<Rightarrow> Some (x', y')))
               else Some (x, y)) of
           None \<Rightarrow> None
         | Some (x', y') \<Rightarrow> Some (doScrollTo me x' y' animate JUndefined w))"

definition scrollBy :: "sid \<Rightarrow> jsval \<Rightarrow> jsval \<Rightarrow> jsval \<Rightarrow> world \<Rightarrow> world" where
  "scrollBy me deltaX deltaY animate w =
     (let p = getPosition me w;
          (deltaX, deltaY, animate) =
            (if truthy deltaX
             then (if truthy (js_field deltaX ''length'')
                   then (js_field deltaX ''0'', js_field deltaX ''1'', deltaY)
                   else if \<not> is_number deltaX
                   then (js_field deltaX ''x'', js_field deltaX ''y'', deltaY)
                   else (deltaX, deltaY, animate))
             else (deltaX, deltaY, animate));
          deltaX = (case deltaX of JNum n \<Rightarrow> JNum (n + coord_x p) | _ \<Rightarrow> JNull);
          deltaY = (case deltaY of JNum n \<Rightarrow> JNum (n + coord_y p) | _ \<Rightarrow> JNull)
      in doScrollTo me deltaX deltaY animate JUndefined w)"

section \<open>Observations\<close>

text \<open>
  What a trace shows of one scroller: the global events fired for \<open>a\<close>, the partner calls
  \<open>a\<close> made (method, callee and coordinates) and the partner calls \<open>p\<close> received
  (method, caller and coordinates), each in the order of the trace.
\<close>

fun fired_by :: "sid \<Rightarrow> notice \<Rightarrow> (kind \<times> int \<times> int) list" where
  "fired_by a (Fired k a' x y) = (if a' = a then [(k, x, y)] else [])"
| "fired_by a n = []"

definition fired :: "sid \<Rightarrow> notice list \<Rightarrow> (kind \<times> int \<times> int) list" where
  "fired a tr = concat (map (fired_by a) tr)"

fun made_by :: "sid \<Rightarrow> notice \<Rightarrow> (meth \<times> sid \<times> int \<times> int) list" where
  "made_by a (PartnerCall m p a' x y) = (if a' = a then [(m, p, x, y)] else [])"
| "made_by a n = []"

definition partner_calls :: "sid \<Rightarrow> notice list \<Rightarrow> (meth \<times> sid \<times> int \<times> int) list" where
  "partner_calls a tr = concat (map (made_by a) tr)"

fun got_by :: "sid \<Rightarrow> notice \<Rightarrow> (meth \<times> sid \<times> int \<times> int) list" where
  "got_by p (PartnerCall m p' a x y) = (if p' = p then [(m, a, x, y)] else [])"
| "got_by p n = []"

definition received :: "sid \<Rightarrow> notice list \<Rightarrow> (meth \<times> sid \<times> int \<times> int) list" where
  "received p tr = concat (map (got_by p) tr)"

text \<open>
  The position \<open>updateDomScrollPosition\<close> finds, the due times of the timeouts pending for
  a scroller, and the partner map as a list (empty when there is no map).
\<close>

definition seen :: "scroller \<Rightarrow> pos" where
  "seen s = (if scrollElement s then surface s else position s)"

definition pending :: "sid \<Rightarrow> world \<Rightarrow> nat list" where
  "pending a w = map fst (filter (\<lambda>(d, s). s = a) (timers w))"

definition partner_list :: "scroller \<Rightarrow> (sid \<times> string option) list" where
  "partner_list s = (case partners s of None \<Rightarrow> [] | Some al \<Rightarrow> al)"

text \<open>
  A run of scroll deltas after one at time \<open>t\<close>: each arrives less than 100ms after the one
  before it. \<open>last_time\<close> and \<open>last_pos\<close> are the time and the offsets of the last one.
\<close>

fun quiet :: "nat \<Rightarrow> (nat \<times> pos) list \<Rightarrow> bool" where
  "quiet t [] = True"
| "quiet t ((t', p) # ds) = (t \<le> t' \<and> t' < t + 100 \<and> quiet t' ds)"

fun last_time :: "nat \<Rightarrow> (nat \<times> pos) list \<Rightarrow> nat" where
  "last_time t [] = t"
| "last_time t ((t', p) # ds) = last_time t' ds"

fun last_pos :: "pos \<Rightarrow> (nat \<times> pos) list \<Rightarrow> pos" where
  "last_pos p [] = p"
| "last_pos p ((t', p') # ds) = last_pos p' ds"

text \<open>
  The same observations on the result of a call: the reflecting flag, the events fired,
  the pending timeouts, whether the scroll listener is attached, the partner calls made
  and the count of suspensions.
\<close>

definition flag_after :: "sid \<Rightarrow> world option \<Rightarrow> bool option" where
  "flag_after p r = map_option (\<lambda>w. isReflecting (heap w p)) r"

definition fired_after :: "sid \<Rightarrow> world option \<Rightarrow> (kind \<times> int \<times> int) list option" where
  "fired_after a r = map_option (\<lambda>w. fired a (trace w)) r"

definition pending_after :: "sid \<Rightarrow> world option \<Rightarrow> nat list option" where
  "pending_after a r = map_option (pending a) r"

definition listening_after :: "sid \<Rightarrow> world option \<Rightarrow> bool option" where
  "listening_after a r = map_option (\<lambda>w. scrollListener (heap w a)) r"

definition calls_after :: "sid \<Rightarrow> world option \<Rightarrow> (meth \<times> sid \<times> int \<times> int) list option" where
  "calls_after a r = map_option (\<lambda>w. partner_calls a (trace w)) r"

definition count_after :: "sid \<Rightarrow> world option \<Rightarrow> int option" where
  "count_after a r = map_option (\<lambda>w. suspend_count (heap w a)) r"

section \<open>The handlers without their failure branches\<close>

text \<open>
  The functions below are total. They are what the handlers above compute when no
  \<open>TypeError\<close> is raised, and the section on the partner loop proves that this is
  always so for the loop (a key of the map always has its entry) and, for
  \<open>onDomScroll\<close>, whenever the buffered function is still in place. \<open>filtered\<close> is the
  pair of coordinates \<open>onPartnerScroll\<close> hands on, \<open>step\<close> one turn of the loop of
  \<open>invokePartners\<close>, \<open>propagated\<close> the loop under its guard, \<open>announce\<close> the three
  notifications of a \<open>fireScroll*\<close>, and \<open>started\<close>, \<open>scrolled\<close>, \<open>ended\<close>, \<open>resumed\<close>,
  \<open>ring\<close> and \<open>advanced\<close> the results of \<open>onDomScroll\<close> (up to the scroll start, and
  whole), \<open>onDomScrollEnd\<close>, \<open>resumePartnerSync\<close>, one timeout and \<open>advance\<close>.
  \<open>erase\<close> forgets the three fields the loop writes.
\<close>

definition filtered :: "string option \<Rightarrow> int \<Rightarrow> int \<Rightarrow> jsval \<times> jsval" where
  "filtered axis x y =
     (if axis = Some ''x'' then (JNum x, JNull)
      else if axis = Some ''y'' then (JNull, JNum y)
      else (JNum x, JNum y))"

definition step :: "meth \<Rightarrow> sid \<Rightarrow> int \<Rightarrow> int \<Rightarrow> (sid \<times> string option) list \<Rightarrow> sid \<Rightarrow> world \<Rightarrow> world" where
  "step m me x y al p w =
     (let w1 = log (PartnerCall m p me x y) (upd p (\<lambda>s. s\<lparr>isReflecting := True\<rparr>) w)
      in case m of
           OnPartnerScrollStart \<Rightarrow> w1
         | OnPartnerScroll \<Rightarrow>
             (case map_of al p of
                None \<Rightarrow> w1
              | Some axis \<Rightarrow>
                  doScrollTo p (fst (filtered axis x y)) (snd (filtered axis x y))
                    (JBool False) (JBool True) w1)
         | OnPartnerScrollEnd \<Rightarrow> upd p (\<lambda>s. s\<lparr>isReflecting := False\<rparr>) w1)"

definition propagated :: "meth \<Rightarrow> sid \<Rightarrow> int \<Rightarrow> int \<Rightarrow> world \<Rightarrow> world" where
  "propagated m me x y w =
     (if suspend_count (heap w me) = 0 \<and> \<not> isReflecting (heap w me)
      then fold (step m me x y (partner_list (heap w me))) (map fst (partner_list (heap w me))) w
      else w)"

definition announce :: "kind \<Rightarrow> sid \<Rightarrow> int \<Rightarrow> int \<Rightarrow> kind list option \<Rightarrow> world \<Rightarrow> world" where
  "announce k me x y c w =
     log (Fired k me x y)
       (case c of
          None \<Rightarrow> (if k \<in> set (hasListeners (heap w me)) then log (Listener k me x y) w else w)
        | Some hooks \<Rightarrow>
            if k \<in> set hooks
            then log (Hook k me x y)
                   (if k \<in> set (hasListeners (heap w me)) then log (Listener k me x y) w else w)
            else (if k \<in> set (hasListeners (heap w me)) then log (Listener k me x y) w else w))"

definition ended :: "sid \<Rightarrow> world \<Rightarrow> world" where
  "ended me w =
     announce ScrollEnd me (coord_x (position (heap w me))) (coord_y (position (heap w me)))
       (component (heap w me))
       (propagated OnPartnerScrollEnd me
          (coord_x (position (heap w me))) (coord_y (position (heap w me)))
          (upd me (\<lambda>s. s\<lparr>trackingScrollLeft := Some (coord_x (position (heap w me))),
                            trackingScrollTop := Some (coord_y (position (heap w me)))\<rparr>)
             ((upd me (\<lambda>s. s\<lparr>isScrolling := False\<rparr>) w)\<lparr>ext_isScrolling := False\<rparr>)))"

definition started :: "sid \<Rightarrow> world \<Rightarrow> world" where
  "started me w =
     (if isScrolling (heap w me) then updateDomScrollPosition me w
      else announce ScrollStart me (coord_x (seen (heap w me))) (coord_y (seen (heap w me)))
             (component (heap w me))
             (propagated OnPartnerScrollStart me
                (coord_x (seen (heap w me))) (coord_y (seen (heap w me)))
                ((upd me (\<lambda>s. s\<lparr>isScrolling := True\<rparr>) (updateDomScrollPosition me w))
                   \<lparr>ext_isScrolling := True\<rparr>)))"

definition scrolled :: "sid \<Rightarrow> world \<Rightarrow> world" where
  "scrolled me w =
     createBuffered 100 me
       (announce Scroll me (coord_x (seen (heap w me))) (coord_y (seen (heap w me)))
          (component (heap w me))
          (propagated OnPartnerScroll me
             (coord_x (seen (heap w me))) (coord_y (seen (heap w me))) (started me w)))"

definition resumed :: "sid \<Rightarrow> bool \<Rightarrow> world \<Rightarrow> world" where
  "resumed me syncNow w =
     (let w1 = (if suspend_count (heap w me) \<noteq> 0
                then upd me (\<lambda>s. s\<lparr>suspendSync := Some (suspend_count s - 1)\<rparr>) w
                else w);
          w2 = propagated OnPartnerScroll me
                 (coord_x (position (heap w1 me))) (coord_y (position (heap w1 me))) w1
      in if suspend_count (heap w1 me) = 0 \<and> syncNow
         then propagated OnPartnerScrollEnd me
                (coord_x (position (heap w2 me))) (coord_y (position (heap w2 me))) w2
         else w1)"

definition ring :: "nat \<times> sid \<Rightarrow> world \<Rightarrow> world" where
  "ring da w = ended (snd da) (w\<lparr>now := max (now w) (fst da)\<rparr>)"

definition advanced :: "nat \<Rightarrow> world \<Rightarrow> world" where
  "advanced t w =
     (fold ring (due t (timers w)) (w\<lparr>timers := filter (\<lambda>(d, a). \<not> d \<le> t) (timers w)\<rparr>))
       \<lparr>now := max (now (fold ring (due t (timers w))
                            (w\<lparr>timers := filter (\<lambda>(d, a). \<not> d \<le> t) (timers w)\<rparr>))) t\<rparr>"

definition erase :: "scroller \<Rightarrow> scroller" where
  "erase s = s\<lparr>position := zero, surface := zero, isReflecting := False\<rparr>"

section \<open>Two partnered scrollers\<close>

text \<open>
  Scrollers 1 and 2, each constructed on an element, made partners of each other.
\<close>

definition pair :: "string option \<Rightarrow> world" where
  "pair axis = addPartner 1 2 axis (constructor 2 True (constructor 1 True initial))"

definition at :: "int \<Rightarrow> int \<Rightarrow> pos" where
  "at x y = \<lparr>coord_x = x, coord_y = y\<rparr>"

section \<open>Properties\<close>

subsection \<open>Reading the world after an update\<close>

lemma heap_upd [simp]: "heap (upd a f w) = (heap w)(a := f (heap w a))"
  and trace_upd [simp]: "trace (upd a f w) = trace w"
  and timers_upd [simp]: "timers (upd a f w) = timers w"
  and now_upd [simp]: "now (upd a f w) = now w"
  and ext_upd [simp]: "ext_isScrolling (upd a f w) = ext_isScrolling w"
  by (simp_all add: upd_def)

lemma heap_log [simp]: "heap (log n w) = heap w"
  and trace_log [simp]: "trace (log n w) = trace w @ [n]"
  and timers_log [simp]: "timers (log n w) = timers w"
  and now_log [simp]: "now (log n w) = now w"
  and ext_log [simp]: "ext_isScrolling (log n w) = ext_isScrolling w"
  by (simp_all add: log_def)

lemma position_doScrollTo:
  "position (heap (doScrollTo a x y an r w) b) =
     (if b = a then move x y (position (heap w a)) else position (heap w b))"
  and surface_doScrollTo:
  "surface (heap (doScrollTo a x y an r w) b) =
     (if b = a then move x y (surface (heap w a)) else surface (heap w b))"
  by (simp_all add: doScrollTo_def)

subsection \<open>Partnerships\<close>

text \<open>
  C5. After \<open>addPartner(A, B, axis)\<close>, \<open>B\<close> is in \<open>A\<close>'s partner map and \<open>A\<close> in \<open>B\<close>'s, both
  with that axis (\<open>'x'\<close> among them); after \<open>removePartner(A, B)\<close> neither map holds the
  other, whatever the maps held before, and so also right after the \<open>addPartner\<close>.
\<close>

theorem partnership_symmetric:
  "partner_axis (addPartner a b axis w) a b = Some axis \<and>
   partner_axis (addPartner a b axis w) b a = Some axis \<and>
   partner_axis (addPartner a b (Some ''x'') w) a b = Some (Some ''x'') \<and>
   partner_axis (addPartner a b (Some ''x'') w) b a = Some (Some ''x'') \<and>
   partner_axis (removePartner a b w') a b = None \<and>
   partner_axis (removePartner a b w') b a = None \<and>
   partner_axis (removePartner a b (addPartner a b axis w)) a b = None \<and>
   partner_axis (removePartner a b (addPartner a b axis w)) b a = None"
  by (auto simp: partner_axis_def addPartner_def removePartner_def Let_def
        update_conv' delete_conv' split: option.splits)

text \<open>
  C6. When the axis stored in \<open>A\<close>'s map for \<open>B\<close> is \<open>'y'\<close>, \<open>B.onPartnerScroll(A, x, y)\<close>
  calls \<open>doScrollTo(null, y, false, true)\<close>, which leaves the x coordinate of \<open>B\<close>'s
  position and surface as it was; for \<open>'x'\<close> the same with the axes exchanged.
\<close>

theorem axis_filtering:
  "(partner_axis w a b = Some (Some ''y'') \<longrightarrow>
      onPartnerScroll b a x y w =
        Some (doScrollTo b JNull (JNum y) (JBool False) (JBool True) w) \<and>
      coord_x (position (heap (doScrollTo b JNull (JNum y) (JBool False) (JBool True) w) b)) =
        coord_x (position (heap w b)) \<and>
      coord_x (surface (heap (doScrollTo b JNull (JNum y) (JBool False) (JBool True) w) b)) =
        coord_x (surface (heap w b))) \<and>
   (partner_axis w a b = Some (Some ''x'') \<longrightarrow>
      onPartnerScroll b a x y w =
        Some (doScrollTo b (JNum x) JNull (JBool False) (JBool True) w) \<and>
      coord_y (position (heap (doScrollTo b (JNum x) JNull (JBool False) (JBool True) w) b)) =
        coord_y (position (heap w b)) \<and>
      coord_y (surface (heap (doScrollTo b (JNum x) JNull (JBool False) (JBool True) w) b)) =
        coord_y (surface (heap w b)))"
  by (simp add: onPartnerScroll_def position_doScrollTo surface_doScrollTo move_def target_def)

theorem axis_filtering_witness:
  "partner_axis (addPartner 1 2 (Some ''y'') initial) 1 2 = Some (Some ''y'') \<and>
   onPartnerScroll 2 1 30 40 (addPartner 1 2 (Some ''y'') initial) =
     Some (doScrollTo 2 JNull (JNum 40) (JBool False) (JBool True)
            (addPartner 1 2 (Some ''y'') initial)) \<and>
   position (heap (doScrollTo 2 JNull (JNum 40) (JBool False) (JBool True)
                    (addPartner 1 2 (Some ''y'') initial)) 2) =
     \<lparr>coord_x = 0, coord_y = 40\<rparr> \<and>
   partner_axis (addPartner 1 2 (Some ''x'') initial) 1 2 = Some (Some ''x'') \<and>
   onPartnerScroll 2 1 30 40 (addPartner 1 2 (Some ''x'') initial) =
     Some (doScrollTo 2 (JNum 30) JNull (JBool False) (JBool True)
            (addPartner 1 2 (Some ''x'') initial)) \<and>
   position (heap (doScrollTo 2 (JNum 30) JNull (JBool False) (JBool True)
                    (addPartner 1 2 (Some ''x'') initial)) 2) =
     \<lparr>coord_x = 30, coord_y = 0\<rparr>"
proof -
  have y: "partner_axis (addPartner 1 2 (Some ''y'') initial) 1 2 = Some (Some ''y'')"
    and x: "partner_axis (addPartner 1 2 (Some ''x'') initial) 1 2 = Some (Some ''x'')"
    by (simp_all add: partner_axis_def addPartner_def Let_def initial_def blank_def)
  have p: "position (heap (addPartner a b axis initial) c) = zero" for a b c axis
    by (simp add: addPartner_def Let_def initial_def blank_def)
  show ?thesis
    using axis_filtering [of "addPartner 1 2 (Some ''y'') initial" 1 2 30 40]
      axis_filtering [of "addPartner 1 2 (Some ''x'') initial" 1 2 30 40] x y
    by (simp add: position_doScrollTo move_def target_def p zero_def)
qed

subsection \<open>Targets of \<open>scrollTo\<close> and \<open>scrollBy\<close>\<close>

text \<open>
  C7. A negative coordinate passed to \<open>scrollTo\<close> is an offset from the maximum scroll
  position of its axis: the call made is \<open>doScrollTo\<close> with the maximum plus the offset,
  and a coordinate that is not negative is passed as it is. With the maximum
  \<open>{x: 100, y: 200}\<close>, \<open>scrollTo(-10, -20)\<close> calls \<open>doScrollTo(90, 180)\<close>, after which
  the position is \<open>{x: 90, y: 180}\<close>.
\<close>

theorem scrollTo_negative_offset:
  "scrollTo a (JNum x) (JNum y) animate w =
     Some (doScrollTo a
            (JNum (if x < 0 then x + coord_x (maxPosition (heap w a)) else x))
            (JNum (if y < 0 then y + coord_y (maxPosition (heap w a)) else y))
            animate JUndefined w) \<and>
   (maxPosition (heap w a) = \<lparr>coord_x = 100, coord_y = 200\<rparr> \<longrightarrow>
      scrollTo a (JNum (- 10)) (JNum (- 20)) animate w =
        Some (doScrollTo a (JNum 90) (JNum 180) animate JUndefined w) \<and>
      position (heap (doScrollTo a (JNum 90) (JNum 180) animate JUndefined w) a) =
        \<lparr>coord_x = 90, coord_y = 180\<rparr>)"
  by (simp add: scrollTo_def js_lt0_def position_doScrollTo move_def target_def Let_def)

theorem scrollTo_negative_offset_witness:
  "maxPosition (heap (upd 1 (\<lambda>s. s\<lparr>maxPosition := \<lparr>coord_x = 100, coord_y = 200\<rparr>\<rparr>) initial) 1) =
     \<lparr>coord_x = 100, coord_y = 200\<rparr> \<and>
   scrollTo 1 (JNum (- 10)) (JNum (- 20)) JUndefined
       (upd 1 (\<lambda>s. s\<lparr>maxPosition := \<lparr>coord_x = 100, coord_y = 200\<rparr>\<rparr>) initial) =
     Some (doScrollTo 1 (JNum 90) (JNum 180) JUndefined JUndefined
       (upd 1 (\<lambda>s. s\<lparr>maxPosition := \<lparr>coord_x = 100, coord_y = 200\<rparr>\<rparr>) initial)) \<and>
   position (heap (doScrollTo 1 (JNum 90) (JNum 180) JUndefined JUndefined
       (upd 1 (\<lambda>s. s\<lparr>maxPosition := \<lparr>coord_x = 100, coord_y = 200\<rparr>\<rparr>) initial)) 1) =
     \<lparr>coord_x = 90, coord_y = 180\<rparr>"
  using scrollTo_negative_offset
    [of 1 "- 10" "- 20" JUndefined
        "upd 1 (\<lambda>s. s\<lparr>maxPosition := \<lparr>coord_x = 100, coord_y = 200\<rparr>\<rparr>) initial"]
  by simp

text \<open>
  C8. For numbers \<open>x\<close>, \<open>y\<close> and any \<open>animate\<close>, \<open>scrollTo([x, y], animate)\<close> and
  \<open>scrollTo({x: x, y: y}, animate)\<close> do what \<open>scrollTo(x, y, animate)\<close> does (a third
  argument is ignored), and so for \<open>scrollBy\<close>, whose call is \<open>doScrollTo\<close> with the
  position plus the deltas. A \<open>null\<close> coordinate is handed to \<open>doScrollTo\<close> as \<open>null\<close>,
  which leaves the position and the surface unchanged on that axis.
\<close>

theorem scroll_argument_forms:
  "scrollTo a (JArr [JNum x, JNum y]) animate z w = scrollTo a (JNum x) (JNum y) animate w \<and>
   scrollTo a (JObj [(''x'', JNum x), (''y'', JNum y)]) animate z w =
     scrollTo a (JNum x) (JNum y) animate w \<and>
   scrollBy a (JArr [JNum x, JNum y]) animate z w = scrollBy a (JNum x) (JNum y) animate w \<and>
   scrollBy a (JObj [(''x'', JNum x), (''y'', JNum y)]) animate z w =
     scrollBy a (JNum x) (JNum y) animate w \<and>
   scrollBy a (JNum x) (JNum y) animate w =
     doScrollTo a (JNum (x + coord_x (position (heap w a))))
       (JNum (y + coord_y (position (heap w a)))) animate JUndefined w \<and>
   scrollTo a JNull (JNum y) animate w =
     Some (doScrollTo a JNull
            (JNum (if y < 0 then y + coord_y (maxPosition (heap w a)) else y))
            animate JUndefined w) \<and>
   scrollTo a (JNum x) JNull animate w =
     Some (doScrollTo a
            (JNum (if x < 0 then x + coord_x (maxPosition (heap w a)) else x)) JNull
            animate JUndefined w) \<and>
   scrollBy a JNull (JNum y) animate w =
     doScrollTo a JNull (JNum (y + coord_y (position (heap w a)))) animate JUndefined w \<and>
   scrollBy a (JNum x) JNull animate w =
     doScrollTo a (JNum (x + coord_x (position (heap w a)))) JNull animate JUndefined w \<and>
   coord_x (position (heap (doScrollTo a JNull v animate r w) a)) =
     coord_x (position (heap w a)) \<and>
   coord_x (surface (heap (doScrollTo a JNull v animate r w) a)) =
     coord_x (surface (heap w a)) \<and>
   coord_y (position (heap (doScrollTo a v JNull animate r w) a)) =
     coord_y (position (heap w a)) \<and>
   coord_y (surface (heap (doScrollTo a v JNull animate r w) a)) =
     coord_y (surface (heap w a))"
  by (simp add: scrollTo_def scrollBy_def js_lt0_def getPosition_def Let_def
        position_doScrollTo surface_doScrollTo move_def target_def)

subsection \<open>The partner loop\<close>

lemma fired_append [simp]: "fired a (tr @ tr') = fired a tr @ fired a tr'"
  and partner_calls_append [simp]:
    "partner_calls a (tr @ tr') = partner_calls a tr @ partner_calls a tr'"
  and received_append [simp]: "received a (tr @ tr') = received a tr @ received a tr'"
  and fired_Nil [simp]: "fired a [] = []"
  and partner_calls_Nil [simp]: "partner_calls a [] = []"
  and received_Nil [simp]: "received a [] = []"
  and fired_Cons [simp]: "fired a (n # tr) = fired_by a n @ fired a tr"
  and partner_calls_Cons [simp]: "partner_calls a (n # tr) = made_by a n @ partner_calls a tr"
  and received_Cons [simp]: "received a (n # tr) = got_by a n @ received a tr"
  by (simp_all add: fired_def partner_calls_def received_def)

lemma partners_step [simp]: "partners (heap (step m me x y al p w) s) = partners (heap w s)"
  by (simp add: step_def doScrollTo_def Let_def split: meth.splits option.splits)

lemma invoke_each_fold:
  "partners (heap w me) = Some al \<Longrightarrow> set ids \<subseteq> fst ` set al \<Longrightarrow>
   invoke_each m me x y ids w = Some (fold (step m me x y al) ids w)"
proof (induction ids arbitrary: w)
  case Nil
  then show ?case by simp
next
  case (Cons p ids)
  from Cons.prems obtain axis where ax: "map_of al p = Some axis"
    by (cases "map_of al p") (auto simp: map_of_eq_None_iff)
  have one: "call_partner m p me x y (upd p (\<lambda>s. s\<lparr>isReflecting := True\<rparr>) w) =
      Some (case m of OnPartnerScrollEnd \<Rightarrow> log (PartnerCall m p me x y) (upd p (\<lambda>s. s\<lparr>isReflecting := True\<rparr>) w)
            | _ \<Rightarrow> step m me x y al p w)"
    using Cons.prems(1) ax
    by (auto simp: call_partner_def onPartnerScroll_def partner_axis_def step_def filtered_def
          Let_def split: meth.splits)
  have keep: "partners (heap (step m me x y al p w) me) = Some al"
    using Cons.prems(1) by simp
  show ?case
    using Cons.IH [OF keep] Cons.prems(2) one
    by (cases m) (simp_all add: step_def Let_def)
qed

lemma invokePartners_eq: "invokePartners m me x y w = Some (propagated m me x y w)"
proof (cases "partners (heap w me)")
  case None
  then show ?thesis by (simp add: invokePartners_def propagated_def partner_list_def)
next
  case (Some al)
  then show ?thesis
    using invoke_each_fold [OF Some, of "map fst al" m x y]
    by (simp add: invokePartners_def propagated_def partner_list_def)
qed

lemma world_step [simp]:
  "timers (step m me x y al p w) = timers w"
  "now (step m me x y al p w) = now w"
  "ext_isScrolling (step m me x y al p w) = ext_isScrolling w"
  by (simp_all add: step_def doScrollTo_def Let_def split: meth.splits option.splits)

lemma erase_step [simp]: "erase (heap (step m me x y al p w) s) = erase (heap w s)"
  by (simp add: step_def doScrollTo_def Let_def erase_def split: meth.splits option.splits)

lemma isReflecting_step:
  "isReflecting (heap (step m me x y al p w) s) =
     (if s = p then m \<noteq> OnPartnerScrollEnd else isReflecting (heap w s))"
  by (simp add: step_def doScrollTo_def Let_def split: meth.splits option.splits)

lemma position_step_other:
  "s \<noteq> p \<or> m \<noteq> OnPartnerScroll \<Longrightarrow>
   position (heap (step m me x y al p w) s) = position (heap w s) \<and>
   surface (heap (step m me x y al p w) s) = surface (heap w s)"
  by (auto simp: step_def doScrollTo_def Let_def split: meth.splits option.splits)

lemma position_step_self:
  "position (heap w me) = \<lparr>coord_x = x, coord_y = y\<rparr> \<Longrightarrow>
   position (heap (step m me x y al p w) me) = \<lparr>coord_x = x, coord_y = y\<rparr>"
  by (auto simp: step_def doScrollTo_def Let_def filtered_def move_def target_def
        split: meth.splits option.splits)

lemma trace_step:
  "fired a (trace (step m me x y al p w)) = fired a (trace w)"
  "partner_calls a (trace (step m me x y al p w)) =
     partner_calls a (trace w) @ (if a = me then [(m, p, x, y)] else [])"
  "received q (trace (step m me x y al p w)) =
     received q (trace w) @ (if q = p then [(m, me, x, y)] else [])"
  by (simp_all add: step_def doScrollTo_def Let_def split: meth.splits option.splits)

lemma world_fold [simp]:
  "timers (fold (step m me x y al) ids w) = timers w"
  "now (fold (step m me x y al) ids w) = now w"
  "ext_isScrolling (fold (step m me x y al) ids w) = ext_isScrolling w"
  by (induction ids arbitrary: w; simp)+

lemma erase_fold [simp]: "erase (heap (fold (step m me x y al) ids w) s) = erase (heap w s)"
  by (induction ids arbitrary: w) simp_all

lemma isReflecting_fold:
  "isReflecting (heap (fold (step m me x y al) ids w) s) =
     (if s \<in> set ids then m \<noteq> OnPartnerScrollEnd else isReflecting (heap w s))"
  by (induction ids arbitrary: w) (auto simp: isReflecting_step)

lemma position_fold_other:
  "s \<notin> set ids \<or> m \<noteq> OnPartnerScroll \<Longrightarrow>
   position (heap (fold (step m me x y al) ids w) s) = position (heap w s) \<and>
   surface (heap (fold (step m me x y al) ids w) s) = surface (heap w s)"
  by (induction ids arbitrary: w) (auto simp: position_step_other)

lemma position_fold_self:
  "position (heap w me) = \<lparr>coord_x = x, coord_y = y\<rparr> \<Longrightarrow>
   position (heap (fold (step m me x y al) ids w) me) = \<lparr>coord_x = x, coord_y = y\<rparr>"
  by (induction ids arbitrary: w) (simp_all add: position_step_self)

lemma trace_fold:
  "fired a (trace (fold (step m me x y al) ids w)) = fired a (trace w)"
  "partner_calls a (trace (fold (step m me x y al) ids w)) =
     partner_calls a (trace w) @ (if a = me then map (\<lambda>p. (m, p, x, y)) ids else [])"
  "received q (trace (fold (step m me x y al) ids w)) =
     received q (trace w) @ map (\<lambda>p. (m, me, x, y)) (filter (\<lambda>p. p = q) ids)"
  by (induction ids arbitrary: w; simp add: trace_step)+

lemma erase_eqD:
  "erase s = erase s' \<Longrightarrow>
   isScrolling s = isScrolling s' \<and> restoring s = restoring s' \<and>
   bufferedEnd s = bufferedEnd s' \<and> scrollListener s = scrollListener s' \<and>
   scrollElement s = scrollElement s' \<and> partners s = partners s' \<and>
   suspendSync s = suspendSync s' \<and> hasListeners s = hasListeners s' \<and>
   component s = component s' \<and> element s = element s' \<and>
   maxPosition s = maxPosition s'"
  by (cases s; cases s') (simp add: erase_def)

lemma world_propagated [simp]:
  "timers (propagated m me x y w) = timers w"
  "now (propagated m me x y w) = now w"
  "ext_isScrolling (propagated m me x y w) = ext_isScrolling w"
  by (simp_all add: propagated_def)

lemma erase_propagated: "erase (heap (propagated m me x y w) s) = erase (heap w s)"
  by (simp add: propagated_def)

lemma kept_propagated [simp]:
  "isScrolling (heap (propagated m me x y w) s) = isScrolling (heap w s)"
  "restoring (heap (propagated m me x y w) s) = restoring (heap w s)"
  "bufferedEnd (heap (propagated m me x y w) s) = bufferedEnd (heap w s)"
  "scrollListener (heap (propagated m me x y w) s) = scrollListener (heap w s)"
  "scrollElement (heap (propagated m me x y w) s) = scrollElement (heap w s)"
  "partners (heap (propagated m me x y w) s) = partners (heap w s)"
  "suspendSync (heap (propagated m me x y w) s) = suspendSync (heap w s)"
  "hasListeners (heap (propagated m me x y w) s) = hasListeners (heap w s)"
  "component (heap (propagated m me x y w) s) = component (heap w s)"
  using erase_eqD [OF erase_propagated [of m me x y w s]] by simp_all

lemma suspend_count_propagated [simp]:
  "suspend_count (heap (propagated m me x y w) s) = suspend_count (heap w s)"
  by (simp add: suspend_count_def)

lemma propagated_list [simp]:
  "partner_list (heap (propagated m me x y w) s) = partner_list (heap w s)"
  by (simp add: partner_list_def)

lemma trace_propagated:
  "fired a (trace (propagated m me x y w)) = fired a (trace w)"
  "partner_calls a (trace (propagated m me x y w)) =
     partner_calls a (trace w) @
     (if a = me \<and> suspend_count (heap w me) = 0 \<and> \<not> isReflecting (heap w me)
      then map (\<lambda>p. (m, p, x, y)) (map fst (partner_list (heap w me))) else [])"
  "received q (trace (propagated m me x y w)) =
     received q (trace w) @
     (if suspend_count (heap w me) = 0 \<and> \<not> isReflecting (heap w me)
      then map (\<lambda>p. (m, me, x, y)) (filter (\<lambda>p. p = q) (map fst (partner_list (heap w me))))
      else [])"
  by (simp_all add: propagated_def trace_fold)

lemma isReflecting_propagated:
  "isReflecting (heap (propagated m me x y w) s) =
     (if suspend_count (heap w me) = 0 \<and> \<not> isReflecting (heap w me) \<and>
         s \<in> fst ` set (partner_list (heap w me))
      then m \<noteq> OnPartnerScrollEnd else isReflecting (heap w s))"
  by (simp add: propagated_def isReflecting_fold)

lemma position_propagated_other:
  "m \<noteq> OnPartnerScroll \<or> s \<notin> fst ` set (partner_list (heap w me)) \<Longrightarrow>
   position (heap (propagated m me x y w) s) = position (heap w s) \<and>
   surface (heap (propagated m me x y w) s) = surface (heap w s)"
  using position_fold_other [of s "map fst (partner_list (heap w me))" m me x y _ w]
  by (auto simp: propagated_def)

lemma position_propagated_self:
  "position (heap w me) = \<lparr>coord_x = x, coord_y = y\<rparr> \<Longrightarrow>
   position (heap (propagated m me x y w) me) = \<lparr>coord_x = x, coord_y = y\<rparr>"
  by (simp add: propagated_def position_fold_self)

lemma propagated_blocked:
  "suspend_count (heap w me) \<noteq> 0 \<or> isReflecting (heap w me) \<Longrightarrow> propagated m me x y w = w"
  by (auto simp: propagated_def)

subsection \<open>The scroll handlers\<close>

lemma world_announce [simp]:
  "heap (announce k me x y c w) = heap w"
  "timers (announce k me x y c w) = timers w"
  "now (announce k me x y c w) = now w"
  "ext_isScrolling (announce k me x y c w) = ext_isScrolling w"
  by (simp_all add: announce_def split: option.splits)

lemma trace_announce [simp]:
  "fired a (trace (announce k me x y c w)) =
     fired a (trace w) @ (if a = me then [(k, x, y)] else [])"
  "partner_calls a (trace (announce k me x y c w)) = partner_calls a (trace w)"
  "received a (trace (announce k me x y c w)) = received a (trace w)"
  by (simp_all add: announce_def split: option.splits)

lemma fire_eq:
  "fire k m me x y w =
     Some (announce k me x y (component (heap w me)) (propagated m me x y w))"
  by (simp add: fire_def invokePartners_eq announce_def Let_def split: option.splits)

lemma onDomScrollEnd_eq: "onDomScrollEnd me w = Some (ended me w)"
  by (simp add: onDomScrollEnd_def ended_def fireScrollEnd_def fire_eq getPosition_def Let_def)

lemma heap_ext_update [simp]: "heap (w\<lparr>ext_isScrolling := b\<rparr>) = heap w"
  by simp

lemma updateDomScrollPosition_simps [simp]:
  "timers (updateDomScrollPosition me w) = timers w"
  "now (updateDomScrollPosition me w) = now w"
  "trace (updateDomScrollPosition me w) = trace w"
  "position (heap (updateDomScrollPosition me w) me) = seen (heap w me)"
  "s \<noteq> me \<Longrightarrow> heap (updateDomScrollPosition me w) s = heap w s"
  "isScrolling (heap (updateDomScrollPosition me w) s) = isScrolling (heap w s)"
  "restoring (heap (updateDomScrollPosition me w) s) = restoring (heap w s)"
  "bufferedEnd (heap (updateDomScrollPosition me w) s) = bufferedEnd (heap w s)"
  "scrollListener (heap (updateDomScrollPosition me w) s) = scrollListener (heap w s)"
  "scrollElement (heap (updateDomScrollPosition me w) s) = scrollElement (heap w s)"
  "partners (heap (updateDomScrollPosition me w) s) = partners (heap w s)"
  "suspendSync (heap (updateDomScrollPosition me w) s) = suspendSync (heap w s)"
  "hasListeners (heap (updateDomScrollPosition me w) s) = hasListeners (heap w s)"
  "component (heap (updateDomScrollPosition me w) s) = component (heap w s)"
  "isReflecting (heap (updateDomScrollPosition me w) s) = isReflecting (heap w s)"
  by (simp_all add: updateDomScrollPosition_def seen_def)

lemma onDomScroll_eq:
  "onDomScroll me w =
     (if restoring (heap w me) then Some (updateDomScrollPosition me w)
      else if bufferedEnd (heap w me) then Some (scrolled me w) else None)"
  by (simp add: onDomScroll_def scrolled_def started_def fireScrollStart_def fireScroll_def
        fire_eq Let_def)

lemma createBuffered_simps [simp]:
  "heap (createBuffered n me w) = heap w"
  "trace (createBuffered n me w) = trace w"
  "now (createBuffered n me w) = now w"
  "timers (createBuffered n me w) = filter (\<lambda>(d, a). a \<noteq> me) (timers w) @ [(now w + n, me)]"
  by (simp_all add: createBuffered_def)

lemma started_simps [simp]:
  "timers (started me w) = timers w"
  "now (started me w) = now w"
  "isScrolling (heap (started me w) s) = (s = me \<or> isScrolling (heap w s))"
  "restoring (heap (started me w) s) = restoring (heap w s)"
  "bufferedEnd (heap (started me w) s) = bufferedEnd (heap w s)"
  "scrollListener (heap (started me w) s) = scrollListener (heap w s)"
  "scrollElement (heap (started me w) s) = scrollElement (heap w s)"
  "partners (heap (started me w) s) = partners (heap w s)"
  "suspendSync (heap (started me w) s) = suspendSync (heap w s)"
  "hasListeners (heap (started me w) s) = hasListeners (heap w s)"
  "component (heap (started me w) s) = component (heap w s)"
  by (auto simp: started_def)

lemma started_count [simp]: "suspend_count (heap (started me w) s) = suspend_count (heap w s)"
  and started_list [simp]: "partner_list (heap (started me w) s) = partner_list (heap w s)"
  by (simp_all add: suspend_count_def partner_list_def)

lemma upd_count [simp]:
  "suspend_count (heap (updateDomScrollPosition me w) s) = suspend_count (heap w s)"
  "partner_list (heap (updateDomScrollPosition me w) s) = partner_list (heap w s)"
  by (simp_all add: suspend_count_def partner_list_def)

lemma started_trace:
  "fired a (trace (started me w)) =
     fired a (trace w) @
     (if a = me \<and> \<not> isScrolling (heap w me)
      then [(ScrollStart, coord_x (seen (heap w me)), coord_y (seen (heap w me)))] else [])"
  "partner_calls a (trace (started me w)) =
     partner_calls a (trace w) @
     (if a = me \<and> \<not> isScrolling (heap w me) \<and> suspend_count (heap w me) = 0 \<and>
         \<not> isReflecting (heap w me)
      then map (\<lambda>p. (OnPartnerScrollStart, p, coord_x (seen (heap w me)), coord_y (seen (heap w me))))
             (map fst (partner_list (heap w me)))
      else [])"
  "received q (trace (started me w)) =
     received q (trace w) @
     (if \<not> isScrolling (heap w me) \<and> suspend_count (heap w me) = 0 \<and> \<not> isReflecting (heap w me)
      then map (\<lambda>p. (OnPartnerScrollStart, me, coord_x (seen (heap w me)), coord_y (seen (heap w me))))
             (filter (\<lambda>p. p = q) (map fst (partner_list (heap w me))))
      else [])"
  by (simp_all add: started_def trace_propagated suspend_count_def partner_list_def)

lemma started_isReflecting:
  "isReflecting (heap (started me w) s) =
     (if \<not> isScrolling (heap w me) \<and> suspend_count (heap w me) = 0 \<and>
         \<not> isReflecting (heap w me) \<and> s \<in> fst ` set (partner_list (heap w me))
      then True else isReflecting (heap w s))"
  by (simp add: started_def isReflecting_propagated suspend_count_def partner_list_def)

lemma started_position: "position (heap (started me w) me) = seen (heap w me)"
  by (simp add: started_def position_propagated_other)

lemma scrolled_simps [simp]:
  "timers (scrolled me w) = filter (\<lambda>(d, a). a \<noteq> me) (timers w) @ [(now w + 100, me)]"
  "now (scrolled me w) = now w"
  "isScrolling (heap (scrolled me w) s) = (s = me \<or> isScrolling (heap w s))"
  "restoring (heap (scrolled me w) s) = restoring (heap w s)"
  "bufferedEnd (heap (scrolled me w) s) = bufferedEnd (heap w s)"
  "scrollListener (heap (scrolled me w) s) = scrollListener (heap w s)"
  "scrollElement (heap (scrolled me w) s) = scrollElement (heap w s)"
  "partners (heap (scrolled me w) s) = partners (heap w s)"
  "suspendSync (heap (scrolled me w) s) = suspendSync (heap w s)"
  "hasListeners (heap (scrolled me w) s) = hasListeners (heap w s)"
  "component (heap (scrolled me w) s) = component (heap w s)"
  by (simp_all add: scrolled_def)

lemma scrolled_trace:
  "fired a (trace (scrolled me w)) =
     fired a (trace w) @
     (if a = me
      then (if isScrolling (heap w me) then []
            else [(ScrollStart, coord_x (seen (heap w me)), coord_y (seen (heap w me)))]) @
           [(Scroll, coord_x (seen (heap w me)), coord_y (seen (heap w me)))]
      else [])"
  "partner_calls a (trace (scrolled me w)) =
     partner_calls a (trace (started me w)) @
     (if a = me \<and> suspend_count (heap w me) = 0 \<and> \<not> isReflecting (heap (started me w) me)
      then map (\<lambda>p. (OnPartnerScroll, p, coord_x (seen (heap w me)), coord_y (seen (heap w me))))
             (map fst (partner_list (heap w me)))
      else [])"
  "received q (trace (scrolled me w)) =
     received q (trace (started me w)) @
     (if suspend_count (heap w me) = 0 \<and> \<not> isReflecting (heap (started me w) me)
      then map (\<lambda>p. (OnPartnerScroll, me, coord_x (seen (heap w me)), coord_y (seen (heap w me))))
             (filter (\<lambda>p. p = q) (map fst (partner_list (heap w me))))
      else [])"
  by (simp_all add: scrolled_def trace_propagated started_trace)

lemma scrolled_isReflecting:
  "isReflecting (heap (scrolled me w) s) =
     (if suspend_count (heap w me) = 0 \<and> \<not> isReflecting (heap (started me w) me) \<and>
         s \<in> fst ` set (partner_list (heap w me))
      then True else isReflecting (heap (started me w) s))"
  by (simp add: scrolled_def isReflecting_propagated)

lemma scrolled_position: "position (heap (scrolled me w) me) = seen (heap w me)"
proof -
  have "position (heap (started me w) me) =
      \<lparr>coord_x = coord_x (seen (heap w me)), coord_y = coord_y (seen (heap w me))\<rparr>"
    by (simp add: started_position)
  from position_propagated_self [OF this, of OnPartnerScroll]
  show ?thesis by (simp add: scrolled_def)
qed

lemma ended_simps [simp]:
  "timers (ended me w) = timers w"
  "now (ended me w) = now w"
  "isScrolling (heap (ended me w) s) = (s \<noteq> me \<and> isScrolling (heap w s))"
  "restoring (heap (ended me w) s) = restoring (heap w s)"
  "bufferedEnd (heap (ended me w) s) = bufferedEnd (heap w s)"
  "scrollListener (heap (ended me w) s) = scrollListener (heap w s)"
  "scrollElement (heap (ended me w) s) = scrollElement (heap w s)"
  "partners (heap (ended me w) s) = partners (heap w s)"
  "suspendSync (heap (ended me w) s) = suspendSync (heap w s)"
  "hasListeners (heap (ended me w) s) = hasListeners (heap w s)"
  "component (heap (ended me w) s) = component (heap w s)"
  by (auto simp: ended_def)

lemma ended_trace:
  "fired a (trace (ended me w)) =
     fired a (trace w) @
     (if a = me then [(ScrollEnd, coord_x (position (heap w me)), coord_y (position (heap w me)))]
      else [])"
  "partner_calls a (trace (ended me w)) =
     partner_calls a (trace w) @
     (if a = me \<and> suspend_count (heap w me) = 0 \<and> \<not> isReflecting (heap w me)
      then map (\<lambda>p. (OnPartnerScrollEnd, p, coord_x (position (heap w me)),
                       coord_y (position (heap w me))))
             (map fst (partner_list (heap w me)))
      else [])"
  by (simp_all add: ended_def trace_propagated suspend_count_def partner_list_def)

lemma ended_isReflecting:
  "isReflecting (heap (ended me w) s) =
     (if suspend_count (heap w me) = 0 \<and> \<not> isReflecting (heap w me) \<and>
         s \<in> fst ` set (partner_list (heap w me))
      then False else isReflecting (heap w s))"
  by (simp add: ended_def isReflecting_propagated suspend_count_def partner_list_def)

lemma ended_position [simp]:
  "position (heap (ended me w) s) = position (heap w s)"
  "surface (heap (ended me w) s) = surface (heap w s)"
  by (simp_all add: ended_def position_propagated_other)

lemma suspend_count_update [simp]: "suspend_count (s\<lparr>suspendSync := Some n\<rparr>) = n"
  by (simp add: suspend_count_def)

lemma suspend_count_upd:
  "suspend_count (heap (upd a (\<lambda>s. s\<lparr>suspendSync := Some n\<rparr>) w) b) =
     (if b = a then n else suspend_count (heap w b))"
  by (simp add: suspend_count_def)

lemma resumePartnerSync_eq: "resumePartnerSync me syncNow w = Some (resumed me syncNow w)"
  by (simp add: resumePartnerSync_def resumed_def invokePartners_eq getPosition_def Let_def)

lemma resumed_count:
  "suspend_count (heap (resumed a syncNow w) b) =
     (if b = a \<and> suspend_count (heap w a) \<noteq> 0 then suspend_count (heap w a) - 1
      else suspend_count (heap w b))"
  by (simp add: resumed_def Let_def suspend_count_def)

subsection \<open>Propagation between partners\<close>

text \<open>
  C1. A scroller that is reflecting or suspended propagates nothing: \<open>invokePartners\<close>
  returns the world as it was. For two scrollers \<open>a\<close> and \<open>b\<close> that are each other's only
  partner (on any axis, \<open>'both'\<close> among them), with \<open>a\<close> neither suspended nor reflecting:
  a scroll event of \<open>a\<close>, followed by the scroll event with which the host answers the
  write to \<open>b\<close>, fires \<open>a\<close>'s \<open>scroll\<close> once (after a \<open>scrollstart\<close> if \<open>a\<close> was not
  scrolling), calls \<open>b.onPartnerScroll\<close> once, and makes no call from \<open>b\<close> and none to \<open>a\<close>.
\<close>

theorem no_ping_pong:
  "(isReflecting (heap w a) \<or> suspend_count (heap w a) \<noteq> 0 \<longrightarrow>
      invokePartners m a x y w = Some w) \<and>
   (a \<noteq> b \<and> partners (heap w a) = Some [(b, axis)] \<and> partners (heap w b) = Some [(a, axis')] \<and>
    suspend_count (heap w a) = 0 \<and> \<not> isReflecting (heap w a) \<and>
    \<not> restoring (heap w a) \<and> \<not> restoring (heap w b) \<and>
    bufferedEnd (heap w a) \<and> bufferedEnd (heap w b) \<longrightarrow>
      (\<exists>w1 w2. onDomScroll a w = Some w1 \<and> onDomScroll b w1 = Some w2 \<and>
         fired a (trace w2) =
           fired a (trace w) @
           (if isScrolling (heap w a) then []
            else [(ScrollStart, coord_x (seen (heap w a)), coord_y (seen (heap w a)))]) @
           [(Scroll, coord_x (seen (heap w a)), coord_y (seen (heap w a)))] \<and>
         received b (trace w2) =
           received b (trace w) @
           (if isScrolling (heap w a) then []
            else [(OnPartnerScrollStart, a, coord_x (seen (heap w a)), coord_y (seen (heap w a)))]) @
           [(OnPartnerScroll, a, coord_x (seen (heap w a)), coord_y (seen (heap w a)))] \<and>
         received a (trace w2) = received a (trace w) \<and>
         partner_calls b (trace w2) = partner_calls b (trace w)))"
proof (intro conjI impI)
  assume "isReflecting (heap w a) \<or> suspend_count (heap w a) \<noteq> 0"
  then show "invokePartners m a x y w = Some w"
    by (auto simp: invokePartners_def)
next
  assume h: "a \<noteq> b \<and> partners (heap w a) = Some [(b, axis)] \<and>
    partners (heap w b) = Some [(a, axis')] \<and>
    suspend_count (heap w a) = 0 \<and> \<not> isReflecting (heap w a) \<and>
    \<not> restoring (heap w a) \<and> \<not> restoring (heap w b) \<and>
    bufferedEnd (heap w a) \<and> bufferedEnd (heap w b)"
  then have la: "partner_list (heap w a) = [(b, axis)]"
    and lb: "partner_list (heap w b) = [(a, axis')]"
    by (simp_all add: partner_list_def)
  have ra: "\<not> isReflecting (heap (started a w) a)"
    using h la by (simp add: started_isReflecting)
  have rb: "isReflecting (heap (scrolled a w) b)"
    using h la ra by (simp add: scrolled_isReflecting)
  have 1: "onDomScroll a w = Some (scrolled a w)"
    using h by (simp add: onDomScroll_eq)
  have 2: "onDomScroll b (scrolled a w) = Some (scrolled b (scrolled a w))"
    using h by (simp add: onDomScroll_eq)
  have sb: "isReflecting (heap (started b (scrolled a w)) b)"
    using rb by (simp add: started_isReflecting)
  show "\<exists>w1 w2. onDomScroll a w = Some w1 \<and> onDomScroll b w1 = Some w2 \<and>
         fired a (trace w2) =
           fired a (trace w) @
           (if isScrolling (heap w a) then []
            else [(ScrollStart, coord_x (seen (heap w a)), coord_y (seen (heap w a)))]) @
           [(Scroll, coord_x (seen (heap w a)), coord_y (seen (heap w a)))] \<and>
         received b (trace w2) =
           received b (trace w) @
           (if isScrolling (heap w a) then []
            else [(OnPartnerScrollStart, a, coord_x (seen (heap w a)), coord_y (seen (heap w a)))]) @
           [(OnPartnerScroll, a, coord_x (seen (heap w a)), coord_y (seen (heap w a)))] \<and>
         received a (trace w2) = received a (trace w) \<and>
         partner_calls b (trace w2) = partner_calls b (trace w)"
    apply (rule exI [of _ "scrolled a w"], rule exI [of _ "scrolled b (scrolled a w)"])
    using h la lb ra rb sb 1 2
    by (simp add: scrolled_trace started_trace)
qed

theorem no_ping_pong_witness:
  "(isReflecting (heap (suspendPartnerSync 1 (pair (Some ''both''))) 1) \<or>
    suspend_count (heap (suspendPartnerSync 1 (pair (Some ''both''))) 1) \<noteq> 0) \<and>
   invokePartners OnPartnerScroll 1 30 40 (suspendPartnerSync 1 (pair (Some ''both''))) =
     Some (suspendPartnerSync 1 (pair (Some ''both''))) \<and>
   partners (heap (upd 1 (\<lambda>s. s\<lparr>surface := at 30 40\<rparr>) (pair (Some ''both''))) 1) =
     Some [(2, Some ''both'')] \<and>
   partners (heap (upd 1 (\<lambda>s. s\<lparr>surface := at 30 40\<rparr>) (pair (Some ''both''))) 2) =
     Some [(1, Some ''both'')] \<and>
   (\<exists>w1 w2. onDomScroll 1 (upd 1 (\<lambda>s. s\<lparr>surface := at 30 40\<rparr>) (pair (Some ''both''))) = Some w1 \<and>
      onDomScroll 2 w1 = Some w2 \<and>
      fired 1 (trace w2) = [(ScrollStart, 30, 40), (Scroll, 30, 40)] \<and>
      received 2 (trace w2) = [(OnPartnerScrollStart, 1, 30, 40), (OnPartnerScroll, 1, 30, 40)] \<and>
      received 1 (trace w2) = [] \<and>
      partner_calls 2 (trace w2) = [])"
proof -
  let ?s = "suspendPartnerSync 1 (pair (Some ''both''))"
  let ?w = "upd 1 (\<lambda>s. s\<lparr>surface := at 30 40\<rparr>) (pair (Some ''both''))"
  have s: "suspend_count (heap ?s 1) \<noteq> 0"
    by code_simp
  have w: "partners (heap ?w 1) = Some [(2, Some ''both'')]"
    "partners (heap ?w 2) = Some [(1, Some ''both'')]"
    "suspend_count (heap ?w 1) = 0" "\<not> isReflecting (heap ?w 1)"
    "\<not> restoring (heap ?w 1)" "\<not> restoring (heap ?w 2)"
    "bufferedEnd (heap ?w 1)" "bufferedEnd (heap ?w 2)" "\<not> isScrolling (heap ?w 1)"
    "seen (heap ?w 1) = at 30 40" "trace ?w = []"
    by code_simp+
  have n: "(1::nat) \<noteq> 2" by simp
  from no_ping_pong [of ?s 1 OnPartnerScroll 30 40] s
  have 1: "invokePartners OnPartnerScroll 1 30 40 ?s = Some ?s"
    by blast
  from no_ping_pong [of ?w 1 _ _ _ 2 "Some ''both''" "Some ''both''"] n w
  have 2: "\<exists>w1 w2. onDomScroll 1 ?w = Some w1 \<and> onDomScroll 2 w1 = Some w2 \<and>
      fired 1 (trace w2) = [(ScrollStart, 30, 40), (Scroll, 30, 40)] \<and>
      received 2 (trace w2) = [(OnPartnerScrollStart, 1, 30, 40), (OnPartnerScroll, 1, 30, 40)] \<and>
      received 1 (trace w2) = [] \<and> partner_calls 2 (trace w2) = []"
    by (simp add: at_def)
  show ?thesis
    using s 1 2 w(1) w(2) by blast
qed

text \<open>
  C3, as stated, fails. Scroller 1 is suspended once. Its partner 2 scrolls at time 0,
  which makes 1 reflecting until the scroll end of 2, due at 100. Scroller 1 then scrolls
  three times, at 10, 20 and 30: the count is still one, 1 is still reflecting and has
  made no partner call. \<open>resumePartnerSync(true)\<close> now brings the count to zero and makes
  no partner call either: the guard of \<open>invokePartners\<close> stops a reflecting scroller.
\<close>

theorem resume_while_reflecting:
  "count_after 1 (Option.bind (dom_scroll 0 2 (at 7 8) (suspendPartnerSync 1 (pair (Some ''both''))))
                   (dom_scrolls [(10, at 1 20), (20, at 3 40), (30, at 5 60)] 1)) = Some 1 \<and>
   flag_after 1 (Option.bind (dom_scroll 0 2 (at 7 8) (suspendPartnerSync 1 (pair (Some ''both''))))
                   (dom_scrolls [(10, at 1 20), (20, at 3 40), (30, at 5 60)] 1)) = Some True \<and>
   calls_after 1 (Option.bind (dom_scroll 0 2 (at 7 8) (suspendPartnerSync 1 (pair (Some ''both''))))
                   (dom_scrolls [(10, at 1 20), (20, at 3 40), (30, at 5 60)] 1)) = Some [] \<and>
   count_after 1 (Option.bind (Option.bind
                   (dom_scroll 0 2 (at 7 8) (suspendPartnerSync 1 (pair (Some ''both''))))
                   (dom_scrolls [(10, at 1 20), (20, at 3 40), (30, at 5 60)] 1))
                   (resumePartnerSync 1 True)) = Some 0 \<and>
   calls_after 1 (Option.bind (Option.bind
                   (dom_scroll 0 2 (at 7 8) (suspendPartnerSync 1 (pair (Some ''both''))))
                   (dom_scrolls [(10, at 1 20), (20, at 3 40), (30, at 5 60)] 1))
                   (resumePartnerSync 1 True)) = Some []"
  by code_simp

text \<open>
  C3, corrected. \<open>suspendPartnerSync\<close> counts up. While the count is not zero a scroll
  event of the
  scroller makes no partner call and leaves the count; a \<open>resumePartnerSync\<close> that does
  not bring the count to zero only counts down; the one that does, called with \<open>true\<close> on
  a scroller that is not reflecting a partner (the re-entrancy rule of C1) and is not its
  own partner, calls \<open>onPartnerScroll\<close> of every partner and then \<open>onPartnerScrollEnd\<close> of
  every partner, with the scroller's current position.
\<close>

theorem suspended_then_resumed:
  "suspend_count (heap (suspendPartnerSync a w) a) = suspend_count (heap w a) + 1 \<and>
   (suspend_count (heap w a) \<noteq> 0 \<and> bufferedEnd (heap w a) \<longrightarrow>
      (\<exists>w'. onDomScroll a w = Some w' \<and>
         partner_calls a (trace w') = partner_calls a (trace w) \<and>
         (\<forall>p. received p (trace w') = received p (trace w)) \<and>
         suspend_count (heap w' a) = suspend_count (heap w a) \<and>
         position (heap w' a) = seen (heap w a))) \<and>
   (suspend_count (heap w a) \<noteq> 0 \<and> suspend_count (heap w a) \<noteq> 1 \<longrightarrow>
      (\<exists>w'. resumePartnerSync a syncNow w = Some w' \<and>
         suspend_count (heap w' a) = suspend_count (heap w a) - 1 \<and>
         trace w' = trace w)) \<and>
   (suspend_count (heap w a) = 1 \<and> \<not> isReflecting (heap w a) \<and>
    a \<notin> fst ` set (partner_list (heap w a)) \<longrightarrow>
      (\<exists>w'. resumePartnerSync a True w = Some w' \<and>
         suspend_count (heap w' a) = 0 \<and>
         partner_calls a (trace w') =
           partner_calls a (trace w) @
           map (\<lambda>p. (OnPartnerScroll, p, coord_x (position (heap w a)),
                       coord_y (position (heap w a))))
             (map fst (partner_list (heap w a))) @
           map (\<lambda>p. (OnPartnerScrollEnd, p, coord_x (position (heap w a)),
                       coord_y (position (heap w a))))
             (map fst (partner_list (heap w a)))))"
proof (intro conjI impI)
  show "suspend_count (heap (suspendPartnerSync a w) a) = suspend_count (heap w a) + 1"
    by (simp add: suspendPartnerSync_def suspend_count_def)
next
  assume h: "suspend_count (heap w a) \<noteq> 0 \<and> bufferedEnd (heap w a)"
  note sc = scrolled_position [of a w]
  show "\<exists>w'. onDomScroll a w = Some w' \<and>
         partner_calls a (trace w') = partner_calls a (trace w) \<and>
         (\<forall>p. received p (trace w') = received p (trace w)) \<and>
         suspend_count (heap w' a) = suspend_count (heap w a) \<and>
         position (heap w' a) = seen (heap w a)"
    using h sc by (simp add: onDomScroll_eq scrolled_trace started_trace suspend_count_def)
next
  assume h: "suspend_count (heap w a) \<noteq> 0 \<and> suspend_count (heap w a) \<noteq> 1"
  then show "\<exists>w'. resumePartnerSync a syncNow w = Some w' \<and>
         suspend_count (heap w' a) = suspend_count (heap w a) - 1 \<and> trace w' = trace w"
    by (simp add: resumePartnerSync_eq resumed_count) (simp add: resumed_def Let_def)
next
  assume h: "suspend_count (heap w a) = 1 \<and> \<not> isReflecting (heap w a) \<and>
    a \<notin> fst ` set (partner_list (heap w a))"
  define w1 where "w1 = upd a (\<lambda>s. s\<lparr>suspendSync := Some (suspend_count s - 1)\<rparr>) w"
  define x where "x = coord_x (position (heap w a))"
  define y where "y = coord_y (position (heap w a))"
  define w2 where "w2 = propagated OnPartnerScroll a x y w1"
  have c1: "suspend_count (heap w1 a) = 0" and r1: "\<not> isReflecting (heap w1 a)"
    and l1: "partner_list (heap w1 a) = partner_list (heap w a)"
    and p1: "position (heap w1 a) = \<lparr>coord_x = x, coord_y = y\<rparr>"
    and t1: "trace w1 = trace w"
    using h by (simp_all add: w1_def suspend_count_def partner_list_def x_def y_def)
  have p2: "position (heap w2 a) = \<lparr>coord_x = x, coord_y = y\<rparr>"
    unfolding w2_def by (rule position_propagated_self [OF p1])
  have r2: "\<not> isReflecting (heap w2 a)"
    using h r1 c1 l1 by (simp add: w2_def isReflecting_propagated)
  have c2: "suspend_count (heap w2 a) = 0"
    using c1 by (simp add: w2_def)
  have eq: "resumed a True w = propagated OnPartnerScrollEnd a x y w2"
    using h c1 p1 p2 by (simp add: resumed_def Let_def w1_def [symmetric] w2_def [symmetric])
  show "\<exists>w'. resumePartnerSync a True w = Some w' \<and>
         suspend_count (heap w' a) = 0 \<and>
         partner_calls a (trace w') =
           partner_calls a (trace w) @
           map (\<lambda>p. (OnPartnerScroll, p, coord_x (position (heap w a)),
                       coord_y (position (heap w a))))
             (map fst (partner_list (heap w a))) @
           map (\<lambda>p. (OnPartnerScrollEnd, p, coord_x (position (heap w a)),
                       coord_y (position (heap w a))))
             (map fst (partner_list (heap w a)))"
    using c1 c2 r1 r2 l1 t1
    by (simp add: resumePartnerSync_eq eq trace_propagated w2_def x_def y_def)
qed

theorem suspended_then_resumed_witness:
  "\<exists>W. dom_scrolls [(0, at 1 20), (10, at 3 40), (20, at 5 60)] 1
          (suspendPartnerSync 1 (pair (Some ''both''))) = Some W \<and>
     suspend_count (heap W 1) = 1 \<and> bufferedEnd (heap W 1) \<and> \<not> isReflecting (heap W 1) \<and>
     1 \<notin> fst ` set (partner_list (heap W 1)) \<and>
     partner_calls 1 (trace W) = [] \<and>
     (\<exists>w'. onDomScroll 1 W = Some w' \<and> partner_calls 1 (trace w') = [] \<and>
        (\<forall>p. received p (trace w') = received p (trace W)) \<and> suspend_count (heap w' 1) = 1) \<and>
     (\<exists>w'. resumePartnerSync 1 True W = Some w' \<and> suspend_count (heap w' 1) = 0 \<and>
        partner_calls 1 (trace w') = [(OnPartnerScroll, 2, 5, 60), (OnPartnerScrollEnd, 2, 5, 60)]) \<and>
     suspend_count (heap (suspendPartnerSync 1 W) 1) = 2 \<and>
     (\<exists>w'. resumePartnerSync 1 True (suspendPartnerSync 1 W) = Some w' \<and>
        suspend_count (heap w' 1) = 1 \<and> trace w' = trace W)"
proof -
  let ?r = "dom_scrolls [(0, at 1 20), (10, at 3 40), (20, at 5 60)] 1
          (suspendPartnerSync 1 (pair (Some ''both'')))"
  have "map_option (\<lambda>w. (suspend_count (heap w 1), bufferedEnd (heap w 1), isReflecting (heap w 1),
            partner_list (heap w 1), partner_calls 1 (trace w), position (heap w 1))) ?r =
      Some (1, True, False, [(2, Some ''both'')], [], at 5 60)"
    by code_simp
  then obtain W where W: "?r = Some W" "suspend_count (heap W 1) = 1" "bufferedEnd (heap W 1)"
    "\<not> isReflecting (heap W 1)" "partner_list (heap W 1) = [(2, Some ''both'')]"
    "partner_calls 1 (trace W) = []" "position (heap W 1) = at 5 60"
    by auto
  have two: "suspend_count (heap (suspendPartnerSync 1 W) 1) = 2"
    "trace (suspendPartnerSync 1 W) = trace W"
    using W(2) by (simp_all add: suspendPartnerSync_def suspend_count_def)
  from suspended_then_resumed [of 1 W True] W(2-7)
  have a: "\<exists>w'. onDomScroll 1 W = Some w' \<and> partner_calls 1 (trace w') = [] \<and>
        (\<forall>p. received p (trace w') = received p (trace W)) \<and> suspend_count (heap w' 1) = 1"
    and b: "\<exists>w'. resumePartnerSync 1 True W = Some w' \<and> suspend_count (heap w' 1) = 0 \<and>
        partner_calls 1 (trace w') = [(OnPartnerScroll, 2, 5, 60), (OnPartnerScrollEnd, 2, 5, 60)]"
    by (auto simp: at_def)
  from suspended_then_resumed [of 1 "suspendPartnerSync 1 W" True] two
  have c: "\<exists>w'. resumePartnerSync 1 True (suspendPartnerSync 1 W) = Some w' \<and>
        suspend_count (heap w' 1) = 1 \<and> trace w' = trace W"
    by simp
  have mem: "1 \<notin> fst ` set (partner_list (heap W 1))"
    using W(5) by simp
  show ?thesis
    using W(1-4,6) mem a b c two(1) by blast
qed

text \<open>
  C4, as stated, fails. Scroller 1 scrolls at time 0 and the host answers the write to its
  partner 2 with a scroll event at time 1, so the scroll end of 1 is due at 100 and that of
  2 at 101. Scroller 2 is reflecting after its own scroll event. At time 100 the scroll
  end of 1 has fired and 2 is no longer reflecting, although no scroll end of 2 has fired.
  And when the scroll end of 2 fires while 2 is reflecting, 2 goes on reflecting.
\<close>

theorem reflecting_cleared_by_origin:
  "flag_after 2 (Option.bind (dom_scroll 0 1 (at 30 40) (pair (Some ''both'')))
                  (dom_scroll 1 2 (at 30 40))) = Some True \<and>
   flag_after 2 (Option.bind (Option.bind (dom_scroll 0 1 (at 30 40) (pair (Some ''both'')))
                  (dom_scroll 1 2 (at 30 40))) (advance 100)) = Some False \<and>
   fired_after 2 (Option.bind (Option.bind (dom_scroll 0 1 (at 30 40) (pair (Some ''both'')))
                  (dom_scroll 1 2 (at 30 40))) (advance 100)) =
     Some [(ScrollStart, 30, 40), (Scroll, 30, 40)] \<and>
   fired_after 1 (Option.bind (Option.bind (dom_scroll 0 1 (at 30 40) (pair (Some ''both'')))
                  (dom_scroll 1 2 (at 30 40))) (advance 100)) =
     Some [(ScrollStart, 30, 40), (Scroll, 30, 40), (ScrollEnd, 30, 40)] \<and>
   flag_after 2 (dom_scroll 0 1 (at 30 40) (pair (Some ''both''))) = Some True \<and>
   flag_after 2 (Option.bind (dom_scroll 0 1 (at 30 40) (pair (Some ''both'')))
                  (onDomScrollEnd 2)) = Some True \<and>
   fired_after 2 (Option.bind (dom_scroll 0 1 (at 30 40) (pair (Some ''both'')))
                  (onDomScrollEnd 2)) = Some [(ScrollEnd, 30, 40)]"
  by code_simp

text \<open>
  C4, corrected. A partner \<open>p\<close> of \<open>a\<close> is reflecting after \<open>a\<close> has propagated a scroll
  start or a scroll, and after a whole scroll event of \<open>a\<close>; it stops reflecting when
  \<open>a\<close>, the scroller it reflects, propagates its scroll end. No propagation of a scroll
  start or a scroll clears the flag of any scroller, no propagation by a scroller \<open>c\<close>
  changes the flag of a scroller that is not a partner of \<open>c\<close>, and \<open>p\<close>'s own scroll
  event and \<open>p\<close>'s own scroll end leave \<open>p\<close> reflecting.
\<close>

theorem reflecting_until_origin_ends:
  "(p \<in> fst ` set (partner_list (heap w a)) \<and> suspend_count (heap w a) = 0 \<and>
    \<not> isReflecting (heap w a) \<longrightarrow>
      (\<exists>w'. invokePartners OnPartnerScrollStart a x y w = Some w' \<and> isReflecting (heap w' p)) \<and>
      (\<exists>w'. invokePartners OnPartnerScroll a x y w = Some w' \<and> isReflecting (heap w' p)) \<and>
      (\<exists>w'. invokePartners OnPartnerScrollEnd a x y w = Some w' \<and> \<not> isReflecting (heap w' p)) \<and>
      (\<not> restoring (heap w a) \<and> bufferedEnd (heap w a) \<longrightarrow>
         (\<exists>w'. onDomScroll a w = Some w' \<and> isReflecting (heap w' p))) \<and>
      (\<exists>w'. onDomScrollEnd a w = Some w' \<and> \<not> isReflecting (heap w' p))) \<and>
   (isReflecting (heap w s) \<and> m \<noteq> OnPartnerScrollEnd \<longrightarrow>
      (\<exists>w'. invokePartners m a x y w = Some w' \<and> isReflecting (heap w' s))) \<and>
   (q \<notin> fst ` set (partner_list (heap w c)) \<longrightarrow>
      (\<exists>w'. invokePartners m' c x y w = Some w' \<and>
         isReflecting (heap w' q) = isReflecting (heap w q))) \<and>
   (isReflecting (heap w p) \<and> bufferedEnd (heap w p) \<longrightarrow>
      (\<exists>w'. onDomScroll p w = Some w' \<and> isReflecting (heap w' p)) \<and>
      (\<exists>w'. onDomScrollEnd p w = Some w' \<and> isReflecting (heap w' p) \<and>
         fired p (trace w') =
           fired p (trace w) @
           [(ScrollEnd, coord_x (position (heap w p)), coord_y (position (heap w p)))]))"
proof (intro conjI impI)
  assume h: "p \<in> fst ` set (partner_list (heap w a)) \<and> suspend_count (heap w a) = 0 \<and>
    \<not> isReflecting (heap w a)"
  show "\<exists>w'. invokePartners OnPartnerScrollStart a x y w = Some w' \<and> isReflecting (heap w' p)"
    and "\<exists>w'. invokePartners OnPartnerScroll a x y w = Some w' \<and> isReflecting (heap w' p)"
    and "\<exists>w'. invokePartners OnPartnerScrollEnd a x y w = Some w' \<and> \<not> isReflecting (heap w' p)"
    using h by (simp_all add: invokePartners_eq isReflecting_propagated)
  show "\<exists>w'. onDomScrollEnd a w = Some w' \<and> \<not> isReflecting (heap w' p)"
    using h by (simp add: onDomScrollEnd_eq ended_isReflecting)
  assume "\<not> restoring (heap w a) \<and> bufferedEnd (heap w a)"
  then show "\<exists>w'. onDomScroll a w = Some w' \<and> isReflecting (heap w' p)"
    using h by (simp add: onDomScroll_eq scrolled_isReflecting started_isReflecting)
next
  assume "isReflecting (heap w s) \<and> m \<noteq> OnPartnerScrollEnd"
  then show "\<exists>w'. invokePartners m a x y w = Some w' \<and> isReflecting (heap w' s)"
    by (simp add: invokePartners_eq isReflecting_propagated)
next
  assume "q \<notin> fst ` set (partner_list (heap w c))"
  then show "\<exists>w'. invokePartners m' c x y w = Some w' \<and>
      isReflecting (heap w' q) = isReflecting (heap w q)"
    by (simp add: invokePartners_eq isReflecting_propagated)
next
  assume h: "isReflecting (heap w p) \<and> bufferedEnd (heap w p)"
  then show "\<exists>w'. onDomScroll p w = Some w' \<and> isReflecting (heap w' p)"
    by (simp add: onDomScroll_eq scrolled_isReflecting started_isReflecting)
  show "\<exists>w'. onDomScrollEnd p w = Some w' \<and> isReflecting (heap w' p) \<and>
         fired p (trace w') =
           fired p (trace w) @
           [(ScrollEnd, coord_x (position (heap w p)), coord_y (position (heap w p)))]"
    using h by (simp add: onDomScrollEnd_eq ended_isReflecting ended_trace)
qed

theorem reflecting_until_origin_ends_witness:
  "\<exists>W. onDomScroll 1 (upd 1 (\<lambda>s. s\<lparr>surface := at 30 40\<rparr>) (pair (Some ''both''))) = Some W \<and>
     2 \<in> fst ` set (partner_list (heap W 1)) \<and> suspend_count (heap W 1) = 0 \<and>
     \<not> isReflecting (heap W 1) \<and> \<not> restoring (heap W 1) \<and> bufferedEnd (heap W 1) \<and>
     isReflecting (heap W 2) \<and> bufferedEnd (heap W 2) \<and>
     (\<exists>w'. invokePartners OnPartnerScrollStart 1 30 40 W = Some w' \<and> isReflecting (heap w' 2)) \<and>
     (\<exists>w'. invokePartners OnPartnerScroll 1 30 40 W = Some w' \<and> isReflecting (heap w' 2)) \<and>
     (\<exists>w'. invokePartners OnPartnerScrollEnd 1 30 40 W = Some w' \<and> \<not> isReflecting (heap w' 2)) \<and>
     (\<exists>w'. onDomScroll 1 W = Some w' \<and> isReflecting (heap w' 2)) \<and>
     (\<exists>w'. onDomScrollEnd 1 W = Some w' \<and> \<not> isReflecting (heap w' 2)) \<and>
     (\<exists>w'. onDomScroll 2 W = Some w' \<and> isReflecting (heap w' 2)) \<and>
     (\<exists>w'. onDomScrollEnd 2 W = Some w' \<and> isReflecting (heap w' 2) \<and>
        fired 2 (trace w') = [(ScrollEnd, 30, 40)]) \<and>
     2 \<notin> fst ` set (partner_list (heap W 2)) \<and>
     (\<exists>w'. invokePartners OnPartnerScrollEnd 2 30 40 W = Some w' \<and> isReflecting (heap w' 2))"
proof -
  let ?r = "onDomScroll 1 (upd 1 (\<lambda>s. s\<lparr>surface := at 30 40\<rparr>) (pair (Some ''both'')))"
  have "map_option (\<lambda>w. (partner_list (heap w 1), suspend_count (heap w 1), isReflecting (heap w 1),
            restoring (heap w 1), bufferedEnd (heap w 1), isReflecting (heap w 2),
            bufferedEnd (heap w 2), fired 2 (trace w), position (heap w 2),
            partner_list (heap w 2))) ?r =
      Some ([(2, Some ''both'')], 0, False, False, True, True, True, [], at 30 40,
            [(1, Some ''both'')])"
    by code_simp
  then obtain W where W: "?r = Some W" "partner_list (heap W 1) = [(2, Some ''both'')]"
    "suspend_count (heap W 1) = 0" "\<not> isReflecting (heap W 1)" "\<not> restoring (heap W 1)"
    "bufferedEnd (heap W 1)" "isReflecting (heap W 2)" "bufferedEnd (heap W 2)"
    "fired 2 (trace W) = []" "position (heap W 2) = at 30 40"
    "partner_list (heap W 2) = [(1, Some ''both'')]"
    by auto
  have m: "OnPartnerScroll \<noteq> OnPartnerScrollEnd" by simp
  have own: "2 \<notin> fst ` set (partner_list (heap W 2))"
    using W(11) by simp
  from reflecting_until_origin_ends [of 2 W 1 30 40 2 OnPartnerScroll 2 2 OnPartnerScrollEnd]
    W(2-10) m own
  have "(\<exists>w'. invokePartners OnPartnerScrollStart 1 30 40 W = Some w' \<and> isReflecting (heap w' 2)) \<and>
     (\<exists>w'. invokePartners OnPartnerScroll 1 30 40 W = Some w' \<and> isReflecting (heap w' 2)) \<and>
     (\<exists>w'. invokePartners OnPartnerScrollEnd 1 30 40 W = Some w' \<and> \<not> isReflecting (heap w' 2)) \<and>
     (\<exists>w'. onDomScroll 1 W = Some w' \<and> isReflecting (heap w' 2)) \<and>
     (\<exists>w'. onDomScrollEnd 1 W = Some w' \<and> \<not> isReflecting (heap w' 2)) \<and>
     (\<exists>w'. onDomScroll 2 W = Some w' \<and> isReflecting (heap w' 2)) \<and>
     (\<exists>w'. onDomScrollEnd 2 W = Some w' \<and> isReflecting (heap w' 2) \<and>
        fired 2 (trace w') = [(ScrollEnd, 30, 40)]) \<and>
     (\<exists>w'. invokePartners OnPartnerScrollEnd 2 30 40 W = Some w' \<and> isReflecting (heap w' 2))"
    by (simp add: at_def)
  moreover have "2 \<in> fst ` set (partner_list (heap W 1))"
    using W(2) by simp
  ultimately show ?thesis
    using W(1,3-8) own by blast
qed

text \<open>
  C10. The count of suspensions is never negative: it is zero at first, the constructor
  leaves it, and if no scroller has a negative count, none has one after
  \<open>suspendPartnerSync\<close> or \<open>resumePartnerSync\<close>. On a scroller that is
  not suspended \<open>resumePartnerSync()\<close> changes nothing at all and
  \<open>resumePartnerSync(syncNow)\<close> leaves the count as it is, and the scroll event after it
  calls \<open>onPartnerScroll\<close> of every partner (after \<open>onPartnerScrollStart\<close> if the scroller
  was not scrolling).
\<close>

theorem suspend_count_never_negative:
  "suspend_count (heap initial s') = 0 \<and>
   suspend_count (heap (constructor c el w) s') = suspend_count (heap w s') \<and>
   ((\<forall>s. 0 \<le> suspend_count (heap w s)) \<longrightarrow>
      (\<forall>s. 0 \<le> suspend_count (heap (suspendPartnerSync a w) s)) \<and>
      (\<exists>w'. resumePartnerSync a syncNow w = Some w' \<and> (\<forall>s. 0 \<le> suspend_count (heap w' s)))) \<and>
   (suspend_count (heap w a) = 0 \<longrightarrow>
      resumePartnerSync a False w = Some w \<and>
      (\<exists>w'. resumePartnerSync a syncNow w = Some w' \<and>
         suspendSync (heap w' a) = suspendSync (heap w a)) \<and>
      (\<not> isReflecting (heap w a) \<and> \<not> restoring (heap w a) \<and> bufferedEnd (heap w a) \<and>
       a \<notin> fst ` set (partner_list (heap w a)) \<longrightarrow>
         (\<exists>w1 w'. resumePartnerSync a False w = Some w1 \<and> onDomScroll a w1 = Some w' \<and>
            partner_calls a (trace w') =
              partner_calls a (trace w) @
              (if isScrolling (heap w a) then []
               else map (\<lambda>p. (OnPartnerScrollStart, p, coord_x (seen (heap w a)),
                                coord_y (seen (heap w a))))
                      (map fst (partner_list (heap w a)))) @
              map (\<lambda>p. (OnPartnerScroll, p, coord_x (seen (heap w a)), coord_y (seen (heap w a))))
                (map fst (partner_list (heap w a))))))"
proof (intro conjI impI)
  show "suspend_count (heap initial s') = 0"
    by (simp add: initial_def blank_def suspend_count_def)
  show "suspend_count (heap (constructor c el w) s') = suspend_count (heap w s')"
    by (simp add: constructor_def setElement_def applyElement_def suspend_count_def Let_def)
next
  assume h: "\<forall>s. 0 \<le> suspend_count (heap w s)"
  show "\<forall>s. 0 \<le> suspend_count (heap (suspendPartnerSync a w) s)"
    using h by (auto simp: suspendPartnerSync_def suspend_count_upd dest: spec [of _ a])
  show "\<exists>w'. resumePartnerSync a syncNow w = Some w' \<and> (\<forall>s. 0 \<le> suspend_count (heap w' s))"
    using h by (auto simp: resumePartnerSync_eq resumed_count dest: spec [of _ a])
next
  assume h: "suspend_count (heap w a) = 0"
  then show none: "resumePartnerSync a False w = Some w"
    by (simp add: resumePartnerSync_eq resumed_def)
  show "\<exists>w'. resumePartnerSync a syncNow w = Some w' \<and>
         suspendSync (heap w' a) = suspendSync (heap w a)"
    using h by (simp add: resumePartnerSync_eq resumed_def Let_def)
  assume g: "\<not> isReflecting (heap w a) \<and> \<not> restoring (heap w a) \<and> bufferedEnd (heap w a) \<and>
       a \<notin> fst ` set (partner_list (heap w a))"
  have "\<not> isReflecting (heap (started a w) a)"
    using g by (simp add: started_isReflecting)
  then show "\<exists>w1 w'. resumePartnerSync a False w = Some w1 \<and> onDomScroll a w1 = Some w' \<and>
            partner_calls a (trace w') =
              partner_calls a (trace w) @
              (if isScrolling (heap w a) then []
               else map (\<lambda>p. (OnPartnerScrollStart, p, coord_x (seen (heap w a)),
                                coord_y (seen (heap w a))))
                      (map fst (partner_list (heap w a)))) @
              map (\<lambda>p. (OnPartnerScroll, p, coord_x (seen (heap w a)), coord_y (seen (heap w a))))
                (map fst (partner_list (heap w a)))"
    using g h none by (simp add: onDomScroll_eq scrolled_trace started_trace)
qed

theorem suspend_count_never_negative_witness:
  "(\<forall>s. 0 \<le> suspend_count (heap (pair (Some ''both'')) s)) \<and>
   (\<forall>s. 0 \<le> suspend_count (heap (suspendPartnerSync 1 (pair (Some ''both''))) s)) \<and>
   suspend_count (heap (pair (Some ''both'')) 1) = 0 \<and>
   \<not> isReflecting (heap (pair (Some ''both'')) 1) \<and> \<not> restoring (heap (pair (Some ''both'')) 1) \<and>
   bufferedEnd (heap (pair (Some ''both'')) 1) \<and>
   1 \<notin> fst ` set (partner_list (heap (pair (Some ''both'')) 1)) \<and>
   resumePartnerSync 1 False (pair (Some ''both'')) = Some (pair (Some ''both'')) \<and>
   (\<exists>w'. resumePartnerSync 1 True (pair (Some ''both'')) = Some w' \<and>
      (\<forall>s. 0 \<le> suspend_count (heap w' s))) \<and>
   (\<exists>w'. resumePartnerSync 1 True (pair (Some ''both'')) = Some w' \<and>
      suspendSync (heap w' 1) = None) \<and>
   (\<exists>w1 w'. resumePartnerSync 1 False (pair (Some ''both'')) = Some w1 \<and>
      onDomScroll 1 w1 = Some w' \<and>
      partner_calls 1 (trace w') = [(OnPartnerScrollStart, 2, 0, 0), (OnPartnerScroll, 2, 0, 0)])"
proof -
  let ?w = "pair (Some ''both'')"
  have all: "\<forall>s. 0 \<le> suspend_count (heap ?w s)"
    by (simp add: pair_def addPartner_def constructor_def setElement_def applyElement_def
          initial_def blank_def suspend_count_def Let_def)
  have w: "suspend_count (heap ?w 1) = 0" "\<not> isReflecting (heap ?w 1)"
    "\<not> restoring (heap ?w 1)" "bufferedEnd (heap ?w 1)"
    "partner_list (heap ?w 1) = [(2, Some ''both'')]" "\<not> isScrolling (heap ?w 1)"
    "seen (heap ?w 1) = at 0 0" "trace ?w = []" "suspendSync (heap ?w 1) = None"
    by code_simp+
  have mem: "1 \<notin> fst ` set (partner_list (heap ?w 1))"
    using w(5) by simp
  note inst = suspend_count_never_negative [where w = ?w and a = 1 and syncNow = True]
  from inst all have A: "\<forall>s. 0 \<le> suspend_count (heap (suspendPartnerSync 1 ?w) s)"
    and B: "\<exists>w'. resumePartnerSync 1 True ?w = Some w' \<and> (\<forall>s. 0 \<le> suspend_count (heap w' s))"
    by blast+
  from inst w(1) have C: "resumePartnerSync 1 False ?w = Some ?w"
    and D: "\<exists>w'. resumePartnerSync 1 True ?w = Some w' \<and>
      suspendSync (heap w' 1) = suspendSync (heap ?w 1)"
    by blast+
  from inst w(1-4) mem
  have E: "\<exists>w1 w'. resumePartnerSync 1 False ?w = Some w1 \<and> onDomScroll 1 w1 = Some w' \<and>
       partner_calls 1 (trace w') =
         partner_calls 1 (trace ?w) @
         (if isScrolling (heap ?w 1) then []
          else map (\<lambda>p. (OnPartnerScrollStart, p, coord_x (seen (heap ?w 1)),
                           coord_y (seen (heap ?w 1))))
                 (map fst (partner_list (heap ?w 1)))) @
         map (\<lambda>p. (OnPartnerScroll, p, coord_x (seen (heap ?w 1)), coord_y (seen (heap ?w 1))))
           (map fst (partner_list (heap ?w 1)))"
    by blast
  have D': "\<exists>w'. resumePartnerSync 1 True ?w = Some w' \<and> suspendSync (heap w' 1) = None"
    using D w(9) by simp
  have E': "\<exists>w1 w'. resumePartnerSync 1 False ?w = Some w1 \<and> onDomScroll 1 w1 = Some w' \<and>
      partner_calls 1 (trace w') = [(OnPartnerScrollStart, 2, 0, 0), (OnPartnerScroll, 2, 0, 0)]"
    using E w(5-8) by (simp add: at_def)
  show ?thesis
    using all w(1-4) mem A B C D' E' by blast
qed

subsection \<open>Timeouts\<close>

lemma fire_timers_eq: "fire_timers ts w = Some (fold ring ts w)"
  by (induction ts arbitrary: w) (auto simp: onDomScrollEnd_eq ring_def)

lemma advance_eq: "advance t w = Some (advanced t w)"
  by (simp add: advance_def advanced_def fire_timers_eq)

lemma ring_simps [simp]:
  "timers (ring da w) = timers w"
  "now (ring da w) = max (now w) (fst da)"
  "isScrolling (heap (ring da w) s) = (s \<noteq> snd da \<and> isScrolling (heap w s))"
  "restoring (heap (ring da w) s) = restoring (heap w s)"
  "bufferedEnd (heap (ring da w) s) = bufferedEnd (heap w s)"
  "scrollListener (heap (ring da w) s) = scrollListener (heap w s)"
  "scrollElement (heap (ring da w) s) = scrollElement (heap w s)"
  "position (heap (ring da w) s) = position (heap w s)"
  "surface (heap (ring da w) s) = surface (heap w s)"
  "fired a (trace (ring da w)) =
     fired a (trace w) @
     (if a = snd da then [(ScrollEnd, coord_x (position (heap w a)), coord_y (position (heap w a)))]
      else [])"
  by (simp_all add: ring_def ended_trace)

lemma fold_ring_simps [simp]:
  "timers (fold ring ts w) = timers w"
  "restoring (heap (fold ring ts w) s) = restoring (heap w s)"
  "bufferedEnd (heap (fold ring ts w) s) = bufferedEnd (heap w s)"
  "scrollListener (heap (fold ring ts w) s) = scrollListener (heap w s)"
  "scrollElement (heap (fold ring ts w) s) = scrollElement (heap w s)"
  "position (heap (fold ring ts w) s) = position (heap w s)"
  "surface (heap (fold ring ts w) s) = surface (heap w s)"
  by (induction ts arbitrary: w; simp)+

lemma fold_ring_isScrolling:
  "isScrolling (heap (fold ring ts w) s) = (s \<notin> snd ` set ts \<and> isScrolling (heap w s))"
  by (induction ts arbitrary: w) auto

lemma fold_ring_now: "now w \<le> t \<Longrightarrow> \<forall>da \<in> set ts. fst da \<le> t \<Longrightarrow> now (fold ring ts w) \<le> t"
  by (induction ts arbitrary: w) auto

lemma fold_ring_fired:
  "fired a (trace (fold ring ts w)) =
     fired a (trace w) @
     replicate (length (filter (\<lambda>da. snd da = a) ts))
       (ScrollEnd, coord_x (position (heap w a)), coord_y (position (heap w a)))"
  by (induction ts arbitrary: w) (auto simp: replicate_app_Cons_same)

lemma due_set: "set (due t ts) = {da \<in> set ts. fst da \<le> t}"
  by (auto simp: due_def)

lemma due_filter:
  "length (filter (\<lambda>da. snd da = a) (due t ts)) =
     length (filter (\<lambda>d. d \<le> t) (map fst (filter (\<lambda>(d, s). s = a) ts)))"
proof -
  have "filter (\<lambda>da. snd da = a) (due t ts) =
      sort_key fst (filter (\<lambda>da. snd da = a) (filter (\<lambda>(d, a). d \<le> t) ts))"
    by (simp add: due_def filter_sort)
  then have "length (filter (\<lambda>da. snd da = a) (due t ts)) =
      length (filter (\<lambda>da. snd da = a) (filter (\<lambda>(d, a). d \<le> t) ts))"
    by simp
  also have "\<dots> = length (filter (\<lambda>d. d \<le> t) (map fst (filter (\<lambda>(d, s). s = a) ts)))"
    by (induction ts) auto
  finally show ?thesis .
qed

lemma advanced_simps [simp]:
  "timers (advanced t w) = filter (\<lambda>(d, a). \<not> d \<le> t) (timers w)"
  "restoring (heap (advanced t w) s) = restoring (heap w s)"
  "bufferedEnd (heap (advanced t w) s) = bufferedEnd (heap w s)"
  "scrollListener (heap (advanced t w) s) = scrollListener (heap w s)"
  "scrollElement (heap (advanced t w) s) = scrollElement (heap w s)"
  "position (heap (advanced t w) s) = position (heap w s)"
  "surface (heap (advanced t w) s) = surface (heap w s)"
  by (simp_all add: advanced_def)

lemma advanced_now: "now w \<le> t \<Longrightarrow> now (advanced t w) = t"
proof -
  assume "now w \<le> t"
  then have "now (fold ring (due t (timers w))
      (w\<lparr>timers := filter (\<lambda>(d, a). \<not> d \<le> t) (timers w)\<rparr>)) \<le> t"
    by (intro fold_ring_now) (auto simp: due_set)
  then show ?thesis by (simp add: advanced_def)
qed

lemma advanced_isScrolling:
  "isScrolling (heap (advanced t w) a) =
     ((\<forall>d \<in> set (pending a w). \<not> d \<le> t) \<and> isScrolling (heap w a))"
  by (force simp: advanced_def fold_ring_isScrolling due_set pending_def)

lemma advanced_fired:
  "fired a (trace (advanced t w)) =
     fired a (trace w) @
     replicate (length (filter (\<lambda>d. d \<le> t) (pending a w)))
       (ScrollEnd, coord_x (position (heap w a)), coord_y (position (heap w a)))"
  by (simp add: advanced_def fold_ring_fired due_filter pending_def)

lemma advanced_pending: "pending a (advanced t w) = filter (\<lambda>d. \<not> d \<le> t) (pending a w)"
proof -
  have "map fst (filter (\<lambda>(d, s). s = a) (filter (\<lambda>(d, a). \<not> d \<le> t) ts)) =
      filter (\<lambda>d. \<not> d \<le> t) (map fst (filter (\<lambda>(d, s). s = a) ts))" for ts
    by (induction ts) auto
  then show ?thesis by (simp add: pending_def)
qed

lemma scrolled_pending: "pending a (scrolled a w) = [now w + 100]"
  by (auto simp: pending_def filter_empty_conv)

lemma delta_step:
  assumes "now w \<le> t" "\<not> restoring (heap w a)" "bufferedEnd (heap w a)"
    "scrollListener (heap w a)" "scrollElement (heap w a)" "\<forall>d \<in> set (pending a w). t < d"
  shows "\<exists>w'. dom_scroll t a p w = Some w' \<and> now w' = t \<and> pending a w' = [t + 100] \<and>
    isScrolling (heap w' a) \<and> \<not> restoring (heap w' a) \<and> bufferedEnd (heap w' a) \<and>
    scrollListener (heap w' a) \<and> scrollElement (heap w' a) \<and> position (heap w' a) = p \<and>
    fired a (trace w') =
      fired a (trace w) @
      (if isScrolling (heap w a) then [] else [(ScrollStart, coord_x p, coord_y p)]) @
      [(Scroll, coord_x p, coord_y p)]"
proof -
  define v where "v = upd a (\<lambda>s. s\<lparr>surface := p\<rparr>) (advanced t w)"
  have none: "filter (\<lambda>d. d \<le> t) (pending a w) = []"
    using assms(6) by (auto simp: filter_empty_conv)
  have v: "now v = t" "\<not> restoring (heap v a)" "bufferedEnd (heap v a)"
    "scrollListener (heap v a)" "seen (heap v a) = p"
    "isScrolling (heap v a) = isScrolling (heap w a)"
    "fired a (trace v) = fired a (trace w)"
    using assms none
    by (auto simp: v_def advanced_now seen_def advanced_isScrolling advanced_fired)
  have "dom_scroll t a p w = Some (scrolled a v)"
    using v by (simp add: dom_scroll_def advance_eq v_def [symmetric] onDomScroll_eq Let_def)
  moreover have "pending a (scrolled a v) = [t + 100]"
    using v by (simp add: scrolled_pending)
  moreover have "position (heap (scrolled a v) a) = p"
    using v by (simp add: scrolled_position)
  moreover have "scrollElement (heap (scrolled a v) a)"
    using assms by (simp add: v_def)
  ultimately show ?thesis
    using v by (simp add: scrolled_trace)
qed

lemma burst_continues:
  "isScrolling (heap w a) \<Longrightarrow> \<not> restoring (heap w a) \<Longrightarrow> bufferedEnd (heap w a) \<Longrightarrow>
   scrollListener (heap w a) \<Longrightarrow> scrollElement (heap w a) \<Longrightarrow> position (heap w a) = p \<Longrightarrow>
   pending a w = [t + 100] \<Longrightarrow> now w = t \<Longrightarrow> quiet t ds \<Longrightarrow>
   \<exists>w'. dom_scrolls ds a w = Some w' \<and> now w' = last_time t ds \<and>
     pending a w' = [last_time t ds + 100] \<and> isScrolling (heap w' a) \<and>
     position (heap w' a) = last_pos p ds \<and>
     fired a (trace w') =
       fired a (trace w) @ map (\<lambda>(t', p'). (Scroll, coord_x p', coord_y p')) ds"
proof (induction ds arbitrary: w t p)
  case Nil
  then show ?case by simp
next
  case (Cons d ds)
  obtain t' p' where d: "d = (t', p')" by (cases d)
  from Cons.prems d have q: "t \<le> t'" "t' < t + 100" "quiet t' ds" by simp_all
  from delta_step [of w t' a p'] Cons.prems q
  obtain w1 where w1: "dom_scroll t' a p' w = Some w1" "now w1 = t'" "pending a w1 = [t' + 100]"
    "isScrolling (heap w1 a)" "\<not> restoring (heap w1 a)" "bufferedEnd (heap w1 a)"
    "scrollListener (heap w1 a)" "scrollElement (heap w1 a)" "position (heap w1 a) = p'"
    "fired a (trace w1) = fired a (trace w) @ [(Scroll, coord_x p', coord_y p')]"
    by auto
  from Cons.IH [OF w1(4) w1(5) w1(6) w1(7) w1(8) w1(9) w1(3) w1(2) q(3)]
  show ?case using w1(1) w1(10) d by auto
qed

lemma quiet_period:
  assumes "pending a w = [d]" "isScrolling (heap w a)"
  shows "T < d \<Longrightarrow> fired a (trace (advanced T w)) = fired a (trace w)"
    and "d \<le> T \<Longrightarrow>
      fired a (trace (advanced T w)) =
        fired a (trace w) @
        [(ScrollEnd, coord_x (position (heap w a)), coord_y (position (heap w a)))] \<and>
      \<not> isScrolling (heap (advanced T w) a) \<and> pending a (advanced T w) = []"
  using assms by (simp_all add: advanced_fired advanced_isScrolling advanced_pending)

text \<open>
  C2. A scroller that is idle (not scrolling, not restoring, no scroll end pending) and
  attached to its element receives a scroll delta at time \<open>t\<close> and then further ones,
  each less than 100ms after the one before. It fires \<open>scrollstart\<close> once, with the first
  delta, and \<open>scroll\<close> once for every delta, with the offsets of that delta. One timeout is
  then pending for it, due 100ms after the last delta: each delta has replaced the one
  before. Until the clock reaches that time no \<open>scrollend\<close> is fired; when it does,
  \<open>scrollend\<close> is fired once, with the last offsets, the scroller is idle again, and
  no later time brings another event.
\<close>

theorem debounced_scroll_end:
  "\<not> isScrolling (heap w a) \<Longrightarrow> \<not> restoring (heap w a) \<Longrightarrow> bufferedEnd (heap w a) \<Longrightarrow>
   scrollListener (heap w a) \<Longrightarrow> scrollElement (heap w a) \<Longrightarrow> pending a w = [] \<Longrightarrow>
   now w \<le> t \<Longrightarrow> quiet t ds \<Longrightarrow>
   \<exists>w'. dom_scrolls ((t, p) # ds) a w = Some w' \<and>
     fired a (trace w') =
       fired a (trace w) @
       (ScrollStart, coord_x p, coord_y p) #
       map (\<lambda>(t', p'). (Scroll, coord_x p', coord_y p')) ((t, p) # ds) \<and>
     pending a w' = [last_time t ds + 100] \<and>
     (\<forall>T. T < last_time t ds + 100 \<longrightarrow>
        (\<exists>w''. advance T w' = Some w'' \<and> fired a (trace w'') = fired a (trace w'))) \<and>
     (\<forall>T. last_time t ds + 100 \<le> T \<longrightarrow>
        (\<exists>w''. advance T w' = Some w'' \<and>
           fired a (trace w'') =
             fired a (trace w') @
             [(ScrollEnd, coord_x (last_pos p ds), coord_y (last_pos p ds))] \<and>
           \<not> isScrolling (heap w'' a) \<and> pending a w'' = [] \<and>
           (\<forall>T'. \<exists>w3. advance T' w'' = Some w3 \<and> fired a (trace w3) = fired a (trace w''))))"
proof -
  assume a: "\<not> isScrolling (heap w a)" "\<not> restoring (heap w a)" "bufferedEnd (heap w a)"
    "scrollListener (heap w a)" "scrollElement (heap w a)" "pending a w = []"
    "now w \<le> t" "quiet t ds"
  from delta_step [of w t a p] a
  obtain w1 where w1: "dom_scroll t a p w = Some w1" "now w1 = t" "pending a w1 = [t + 100]"
    "isScrolling (heap w1 a)" "\<not> restoring (heap w1 a)" "bufferedEnd (heap w1 a)"
    "scrollListener (heap w1 a)" "scrollElement (heap w1 a)" "position (heap w1 a) = p"
    "fired a (trace w1) =
       fired a (trace w) @ [(ScrollStart, coord_x p, coord_y p), (Scroll, coord_x p, coord_y p)]"
    by auto
  from burst_continues [OF w1(4) w1(5) w1(6) w1(7) w1(8) w1(9) w1(3) w1(2) a(8)]
  obtain w' where w': "dom_scrolls ds a w1 = Some w'" "now w' = last_time t ds"
    "pending a w' = [last_time t ds + 100]" "isScrolling (heap w' a)"
    "position (heap w' a) = last_pos p ds"
    "fired a (trace w') =
       fired a (trace w1) @ map (\<lambda>(t', p'). (Scroll, coord_x p', coord_y p')) ds"
    by auto
  have "dom_scrolls ((t, p) # ds) a w = Some w'"
    using w1(1) w'(1) by simp
  moreover have "fired a (trace w') =
       fired a (trace w) @
       (ScrollStart, coord_x p, coord_y p) #
       map (\<lambda>(t', p'). (Scroll, coord_x p', coord_y p')) ((t, p) # ds)"
    using w'(6) w1(10) by simp
  moreover have "fired a (trace (advanced T' (advanced T w'))) = fired a (trace (advanced T w'))"
    if "last_time t ds + 100 \<le> T" for T T'
    using that w'(3) by (simp add: advanced_fired advanced_pending)
  ultimately show ?thesis
    using w'(3) w'(5) quiet_period [OF w'(3) w'(4)] by (simp add: advance_eq)
qed

theorem debounced_scroll_end_witness:
  "\<not> isScrolling (heap (pair (Some ''both'')) 1) \<and> \<not> restoring (heap (pair (Some ''both'')) 1) \<and>
   bufferedEnd (heap (pair (Some ''both'')) 1) \<and> scrollListener (heap (pair (Some ''both'')) 1) \<and>
   scrollElement (heap (pair (Some ''both'')) 1) \<and> pending 1 (pair (Some ''both'')) = [] \<and>
   now (pair (Some ''both'')) \<le> 5 \<and> quiet 5 [(45, at 3 40), (95, at 5 60)] \<and>
   (\<exists>w'. dom_scrolls [(5, at 1 20), (45, at 3 40), (95, at 5 60)] 1 (pair (Some ''both'')) = Some w' \<and>
      fired 1 (trace w') = [(ScrollStart, 1, 20), (Scroll, 1, 20), (Scroll, 3, 40), (Scroll, 5, 60)] \<and>
      pending 1 w' = [195] \<and>
      (\<exists>w''. advance 194 w' = Some w'' \<and>
         fired 1 (trace w'') =
           [(ScrollStart, 1, 20), (Scroll, 1, 20), (Scroll, 3, 40), (Scroll, 5, 60)]) \<and>
      (\<exists>w''. advance 195 w' = Some w'' \<and>
         fired 1 (trace w'') =
           [(ScrollStart, 1, 20), (Scroll, 1, 20), (Scroll, 3, 40), (Scroll, 5, 60),
            (ScrollEnd, 5, 60)] \<and>
         \<not> isScrolling (heap w'' 1) \<and> pending 1 w'' = []))"
proof -
  let ?w = "pair (Some ''both'')"
  have w: "\<not> isScrolling (heap ?w 1)" "\<not> restoring (heap ?w 1)" "bufferedEnd (heap ?w 1)"
    "scrollListener (heap ?w 1)" "scrollElement (heap ?w 1)" "pending 1 ?w = []"
    "now ?w \<le> 5" "quiet 5 [(45, at 3 40), (95, at 5 60)]" "trace ?w = []"
    by code_simp+
  from debounced_scroll_end [OF w(1-8), of "at 1 20"]
  obtain w' where w': "dom_scrolls [(5, at 1 20), (45, at 3 40), (95, at 5 60)] 1 ?w = Some w'"
    "fired 1 (trace w') = [(ScrollStart, 1, 20), (Scroll, 1, 20), (Scroll, 3, 40), (Scroll, 5, 60)]"
    "pending 1 w' = [195]"
    "\<forall>T. T < 195 \<longrightarrow> (\<exists>w''. advance T w' = Some w'' \<and> fired 1 (trace w'') = fired 1 (trace w'))"
    "\<forall>T. 195 \<le> T \<longrightarrow>
        (\<exists>w''. advance T w' = Some w'' \<and>
           fired 1 (trace w'') = fired 1 (trace w') @ [(ScrollEnd, 5, 60)] \<and>
           \<not> isScrolling (heap w'' 1) \<and> pending 1 w'' = [] \<and>
           (\<forall>T'. \<exists>w3. advance T' w'' = Some w3 \<and> fired 1 (trace w3) = fired 1 (trace w'')))"
    using w(9) by (auto simp: at_def)
  have "\<exists>w''. advance 194 w' = Some w'' \<and> fired 1 (trace w'') = fired 1 (trace w')"
    using w'(4) by simp
  moreover have "\<exists>w''. advance 195 w' = Some w'' \<and>
           fired 1 (trace w'') = fired 1 (trace w') @ [(ScrollEnd, 5, 60)] \<and>
           \<not> isScrolling (heap w'' 1) \<and> pending 1 w'' = []"
    using w'(5) by (simp del: ex_simps) blast
  ultimately show ?thesis
    using w(1-8) w'(1-3) by (simp del: quiet.simps dom_scrolls.simps)
qed

subsection \<open>Teardown\<close>

text \<open>
  C9. \<open>destroy\<close> leaves the pending timeouts as they are. A scroller that scrolls at time
  0 and is destroyed has its scroll listener detached and its timeout still pending, and
  when the clock reaches 100 the timeout fires \<open>scrollend\<close> for the destroyed scroller.
\<close>

theorem destroy_leaves_timeout:
  "timers (destroy a w) = timers w \<and>
   pending_after 1 (map_option (destroy 1)
      (dom_scroll 0 1 (at 30 40) (constructor 1 True initial))) = Some [100] \<and>
   listening_after 1 (map_option (destroy 1)
      (dom_scroll 0 1 (at 30 40) (constructor 1 True initial))) = Some False \<and>
   fired_after 1 (map_option (destroy 1)
      (dom_scroll 0 1 (at 30 40) (constructor 1 True initial))) =
     Some [(ScrollStart, 30, 40), (Scroll, 30, 40)] \<and>
   fired_after 1 (Option.bind (map_option (destroy 1)
      (dom_scroll 0 1 (at 30 40) (constructor 1 True initial))) (advance 100)) =
     Some [(ScrollStart, 30, 40), (Scroll, 30, 40), (ScrollEnd, 30, 40)]"
proof -
  have "timers (destroy a w) = timers w"
    by (simp add: destroy_def setElement_def applyElement_def Let_def)
  moreover have "pending_after 1 (map_option (destroy 1)
      (dom_scroll 0 1 (at 30 40) (constructor 1 True initial))) = Some [100] \<and>
   listening_after 1 (map_option (destroy 1)
      (dom_scroll 0 1 (at 30 40) (constructor 1 True initial))) = Some False \<and>
   fired_after 1 (map_option (destroy 1)
      (dom_scroll 0 1 (at 30 40) (constructor 1 True initial))) =
     Some [(ScrollStart, 30, 40), (Scroll, 30, 40)] \<and>
   fired_after 1 (Option.bind (map_option (destroy 1)
      (dom_scroll 0 1 (at 30 40) (constructor 1 True initial))) (advance 100)) =
     Some [(ScrollStart, 30, 40), (Scroll, 30, 40), (ScrollEnd, 30, 40)]"
    by code_simp
  ultimately show ?thesis by blast
qed

end
